theory Spec2Isabelle
  imports Complex_Main
begin

section \<open>Python values, dictionaries and exceptions\<close>

text \<open>
  The two scripts are Python. Python floats are modelled as \<^typ>\<open>real\<close> (no rounding),
  Python ints as \<^typ>\<open>int\<close>, strings as \<^typ>\<open>string\<close>. A raised exception is the
  \<open>Inl\<close> branch of a sum, a normal return the \<open>Inr\<close> branch.
\<close>

datatype error =
    KeyError string
  | TypeError
  | ValueError
  | IndexError
  | AssertionError
  | OSError string

text \<open>
  The values stored in a pose dictionary: numbers (\<open>0\<close>, \<open>11\<close>, \<open>9.898041\<close>) and, under
  the key \<open>'orientation'\<close>, what \<open>euler_to_quaternion\<close> returned. A dict is an association
  list in insertion order.
\<close>

datatype pyval = Num real | Dict "(string \<times> pyval) list"

type_synonym dict = "(string \<times> pyval) list"

text \<open>\<open>d[k]\<close> on a dict: the value, or \<open>KeyError\<close>.\<close>

definition getitem :: "dict \<Rightarrow> string \<Rightarrow> error + pyval" where
  "getitem d k = (case map_of d k of None \<Rightarrow> Inl (KeyError k) | Some v \<Rightarrow> Inr v)"

text \<open>\<open>d[k] = v\<close>: an existing key keeps its place, a new key goes to the end.\<close>

fun setitem :: "string \<Rightarrow> pyval \<Rightarrow> dict \<Rightarrow> dict" where
  "setitem k v [] = [(k, v)]"
| "setitem k v ((k', v') # d) = (if k = k' then (k, v) # d else (k', v') # setitem k v d)"

text \<open>\<open>v[k]\<close> on any value: a number is not subscriptable.\<close>

definition subscript :: "pyval \<Rightarrow> string \<Rightarrow> error + pyval" where
  "subscript v k = (case v of Dict d \<Rightarrow> getitem d k | Num r \<Rightarrow> Inl TypeError)"

text \<open>\<open>float(v)\<close>: a number converts, a dict does not.\<close>

definition py_float :: "pyval \<Rightarrow> error + real" where
  "py_float v = (case v of Num r \<Rightarrow> Inr r | Dict d \<Rightarrow> Inl TypeError)"

text \<open>\<open>float(d[k])\<close>, the pattern of every field assignment in \<open>spawn\<close>.\<close>

definition float_item :: "pyval \<Rightarrow> string \<Rightarrow> error + real" where
  "float_item v k = (case subscript v k of Inl e \<Rightarrow> Inl e | Inr u \<Rightarrow> py_float u)"

text \<open>
  The exception a future re-raises from \<open>future.result()\<close>: an instance of \<open>Exception\<close>,
  known to the scripts only through \<open>str(e)\<close> and \<open>repr(e)\<close>, which they format into
  log messages.
\<close>

record py_exception =
  exc_str :: string
  exc_repr :: string

section \<open>Messages of the external interfaces\<close>

text \<open>
  \<open>geometry_msgs.msg.Point\<close>, and the fields of \<open>gazebo_msgs.srv.SpawnEntity.Request\<close>
  that the script assigns.
\<close>

record point =
  point_x :: real
  point_y :: real
  point_z :: real

record quaternion =
  quat_x :: real
  quat_y :: real
  quat_z :: real
  quat_w :: real

record pose =
  position :: point
  orientation :: quaternion

record spawn_request =
  entity_name :: string
  entity_xml :: string
  initial_pose :: pose

record spawn_response =
  spawn_success :: bool
  status_message :: string

text \<open>\<open>custom_interfaces.srv.SendGolfBallPoses\<close>: the batched request and its response.\<close>

record poses_request =
  req_golfballs :: "point list"
  req_names :: "string list"

record poses_response =
  success :: bool

section \<open>The world-bootstrap node: spawn\_demo.py\<close>

text \<open>
  What the node does to the outside, in order: log lines, asynchronous service calls and
  the registration of done-callbacks. The two callbacks are closures; \<open>spawn_result\<close>
  captures the entity's name. They are run later by the executor of \<open>rclpy\<close>, so each
  is given as a function of what \<open>future.result()\<close> raises or returns.
  \<open>spawn_border\<close> is never called (its call in \<open>create_world\<close> is a comment) and has no
  counterpart here.
\<close>

datatype severity = INFO | WARN | FATAL

datatype callback = Spawn_result string | Publish_golfballs_results

datatype event =
    Log severity string
  | Call_SpawnEntity spawn_request
  | Call_SendGolfBallPoses poses_request
  | Add_done_callback callback

text \<open>
  Everything the script imports and does not define is a parameter:
  \<^item> \<open>helpers.functions\<close>: \<open>feet_to_meters\<close>, \<open>euler_to_quaternion\<close>; \<open>math.radians\<close>;
  \<^item> \<open>helpers.filepaths.model_paths\<close> and the file system behind \<open>open(path).read()\<close>;
  \<^item> the freshly constructed \<open>SpawnEntity.Request()\<close> with its default field values;
  \<^item> the \<open>random\<close> module, as functions on a generator state \<open>'g\<close>;
  \<^item> \<open>client.wait_for_service\<close>: the answer to the \<open>i\<close>-th poll of a service;
  \<^item> \<open>str\<close> of a \<open>SpawnEntity\<close> response.
\<close>

record 'g env =
  feet_to_meters :: "real \<Rightarrow> real"
  euler_to_quaternion :: "real \<Rightarrow> real \<Rightarrow> real \<Rightarrow> pyval"
  radians :: "real \<Rightarrow> real"
  model_paths :: "(string \<times> string) list"
  read_file :: "string \<Rightarrow> error + string"
  SpawnEntity_Request :: spawn_request
  random_randint :: "int \<Rightarrow> int \<Rightarrow> 'g \<Rightarrow> int \<times> 'g"
  random_random :: "'g \<Rightarrow> real \<times> 'g"
  wait_for_service :: "string \<Rightarrow> nat \<Rightarrow> bool"
  str_response :: "spawn_response \<Rightarrow> string"

text \<open>The node's state: \<open>self.golfballs\<close>, the events so far, the random generator.\<close>

record 'g world =
  golfballs :: "(point \<times> string) list"
  trace :: "event list"
  rng :: 'g

definition emit :: "event list \<Rightarrow> 'g world \<Rightarrow> 'g world" where
  "emit es w = w\<lparr>trace := trace w @ es\<rparr>"

subsection \<open>spawn\<close>

definition upd_position :: "(point \<Rightarrow> point) \<Rightarrow> spawn_request \<Rightarrow> spawn_request" where
  "upd_position f rq = rq\<lparr>initial_pose := (initial_pose rq)\<lparr>position := f (position (initial_pose rq))\<rparr>\<rparr>"

definition upd_orientation :: "(quaternion \<Rightarrow> quaternion) \<Rightarrow> spawn_request \<Rightarrow> spawn_request" where
  "upd_orientation f rq =
     rq\<lparr>initial_pose := (initial_pose rq)\<lparr>orientation := f (orientation (initial_pose rq))\<rparr>\<rparr>"

text \<open>Lines 72 to 74: the three position fields, outside any \<open>try\<close>.\<close>

definition set_position :: "dict \<Rightarrow> spawn_request \<Rightarrow> error + spawn_request" where
  "set_position pose rq =
    (case float_item (Dict pose) ''x'' of Inl e \<Rightarrow> Inl e | Inr vx \<Rightarrow>
      (let rq = upd_position (\<lambda>p. p\<lparr>point_x := vx\<rparr>) rq in
       case float_item (Dict pose) ''y'' of Inl e \<Rightarrow> Inl e | Inr vy \<Rightarrow>
        (let rq = upd_position (\<lambda>p. p\<lparr>point_y := vy\<rparr>) rq in
         case float_item (Dict pose) ''z'' of Inl e \<Rightarrow> Inl e | Inr vz \<Rightarrow>
           Inr (upd_position (\<lambda>p. p\<lparr>point_z := vz\<rparr>) rq))))"

text \<open>
  Lines 76 to 80, the body of the \<open>try\<close>: the exception that stopped it, if any, and the
  request as mutated up to that point.
\<close>

definition orientation_block :: "dict \<Rightarrow> spawn_request \<Rightarrow> error option \<times> spawn_request" where
  "orientation_block pose rq =
    (case getitem pose ''orientation'' of Inl e \<Rightarrow> (Some e, rq) | Inr ori \<Rightarrow>
      (case float_item ori ''x'' of Inl e \<Rightarrow> (Some e, rq) | Inr vx \<Rightarrow>
        (let rq = upd_orientation (\<lambda>q. q\<lparr>quat_x := vx\<rparr>) rq in
         case float_item ori ''y'' of Inl e \<Rightarrow> (Some e, rq) | Inr vy \<Rightarrow>
          (let rq = upd_orientation (\<lambda>q. q\<lparr>quat_y := vy\<rparr>) rq in
           case float_item ori ''z'' of Inl e \<Rightarrow> (Some e, rq) | Inr vz \<Rightarrow>
            (let rq = upd_orientation (\<lambda>q. q\<lparr>quat_z := vz\<rparr>) rq in
             case float_item ori ''w'' of Inl e \<Rightarrow> (Some e, rq) | Inr vw \<Rightarrow>
               (None, upd_orientation (\<lambda>q. q\<lparr>quat_w := vw\<rparr>) rq))))))"

text \<open>Lines 75 to 82: \<open>except KeyError: pass\<close>; any other exception propagates.\<close>

definition set_orientation :: "dict \<Rightarrow> spawn_request \<Rightarrow> error + spawn_request" where
  "set_orientation pose rq =
    (case orientation_block pose rq of
       (None, rq') \<Rightarrow> Inr rq'
     | (Some (KeyError k), rq') \<Rightarrow> Inr rq'
     | (Some e, rq') \<Rightarrow> Inl e)"

text \<open>
  \<open>spawn\<close> builds the request, sends it with \<open>call_async\<close> and registers
  \<open>spawn_result\<close> on the future.
\<close>

definition spawn :: "'g env \<Rightarrow> string \<Rightarrow> string \<Rightarrow> dict \<Rightarrow> 'g world \<Rightarrow> error + 'g world" where
  "spawn env name xml pose w =
    (let request = (SpawnEntity_Request env)\<lparr>entity_name := name, entity_xml := xml\<rparr> in
     case set_position pose request of Inl e \<Rightarrow> Inl e | Inr request \<Rightarrow>
      (case set_orientation pose request of Inl e \<Rightarrow> Inl e | Inr request \<Rightarrow>
         Inr (emit [Call_SpawnEntity request, Add_done_callback (Spawn_result name)] w)))"

text \<open>The done-callback of \<open>spawn\<close>, run with what \<open>future.result()\<close> raises or returns.\<close>

definition spawn_result ::
  "'g env \<Rightarrow> string \<Rightarrow> py_exception + spawn_response \<Rightarrow> 'g world \<Rightarrow> py_exception + 'g world" where
  "spawn_result env name outcome w =
    (case outcome of
       Inr result \<Rightarrow> Inr (emit [Log INFO (''Result: '' @ str_response env result)] w)
     | Inl e \<Rightarrow> Inr (emit [Log WARN (''Could not spawn '' @ name @ ''. Exception: '' @ exc_str e)] w))"

subsection \<open>Formatting integers\<close>

text \<open>\<open>str(i)\<close> for a Python int, as the f-strings \<open>f'tape{i}'\<close> and \<open>f'ball{i}'\<close> need it.\<close>

definition digit_char :: "nat \<Rightarrow> char" where
  "digit_char d = ''0123456789'' ! d"

fun str_nat :: "nat \<Rightarrow> string" where
  "str_nat n = (if n < 10 then [digit_char n] else str_nat (n div 10) @ [digit_char (n mod 10)])"

declare str_nat.simps [simp del]

text \<open>Reading a decimal numeral back, to show that \<open>str_nat\<close> loses nothing.\<close>

definition nat_of_digits :: "string \<Rightarrow> nat" where
  "nat_of_digits s = foldl (\<lambda>acc c. 10 * acc + (of_char c - 48)) 0 s"

definition str_int :: "int \<Rightarrow> string" where
  "str_int i = (if i < 0 then CHR ''-'' # str_nat (nat (- i)) else str_nat (nat i))"

subsection \<open>Model files\<close>

text \<open>\<open>open(model_paths[key]).read()\<close>.\<close>

definition read_model :: "'g env \<Rightarrow> string \<Rightarrow> error + string" where
  "read_model env key =
    (case map_of (model_paths env) key of
       None \<Rightarrow> Inl (KeyError key)
     | Some path \<Rightarrow> read_file env path)"

subsection \<open>Loops\<close>

text \<open>
  \<open>for i in range(n)\<close> over a body that may raise: the loop stops at the first exception.
\<close>

fun for_range :: "(nat \<Rightarrow> 's \<Rightarrow> error + 's) \<Rightarrow> nat list \<Rightarrow> 's \<Rightarrow> error + 's" where
  "for_range body [] s = Inr s"
| "for_range body (i # is) s =
     (case body i s of Inl e \<Rightarrow> Inl e | Inr s' \<Rightarrow> for_range body is s')"

text \<open>
  \<open>while True:\<close> leaves only through \<open>break\<close>, so the body says how it ended. A loop that
  never breaks does not return: the result is \<open>None\<close>. The first component of the result
  counts the executions of the body.
\<close>

datatype ctl = Break | Continue

partial_function (option) while_True :: "('s \<Rightarrow> ctl \<times> 's) \<Rightarrow> nat \<Rightarrow> 's \<Rightarrow> (nat \<times> 's) option" where
  "while_True body n s =
     (case body s of
        (Break, s') \<Rightarrow> Some (Suc n, s')
      | (Continue, s') \<Rightarrow> while_True body (Suc n) s')"

declare while_True.simps [code]

text \<open>
  \<open>while not client.wait_for_service(1.0): log(...)\<close>: \<open>ready i\<close> is the answer to the
  \<open>i\<close>-th poll. A service that never appears keeps the node waiting for ever.
\<close>

partial_function (option) wait_loop :: "(nat \<Rightarrow> bool) \<Rightarrow> ('s \<Rightarrow> 's) \<Rightarrow> nat \<Rightarrow> 's \<Rightarrow> 's option" where
  "wait_loop ready waiting i s =
     (if ready i then Some s else wait_loop ready waiting (Suc i) (waiting s))"

declare wait_loop.simps [code]

subsection \<open>The field: grass, tape and robot\<close>

definition spawn_grass :: "'g env \<Rightarrow> 'g world \<Rightarrow> error + 'g world" where
  "spawn_grass env w =
    (case read_model env ''grass'' of Inl e \<Rightarrow> Inl e | Inr xml \<Rightarrow>
       spawn env ''grass'' xml [(''x'', Num 0), (''y'', Num 0), (''z'', Num 0)] w)"

definition tape_coordinates :: "'g env \<Rightarrow> dict list" where
  "tape_coordinates env =
    [[(''x'', Num 9.898041), (''y'', Num (- 8.527939)), (''z'', Num 0.0)],
     [(''x'', Num 8.521017), (''y'', Num (- 9.901380)), (''z'', Num 0.0),
      (''orientation'', euler_to_quaternion env 0 0 (radians env 90))]]"

definition spawn_tape :: "'g env \<Rightarrow> 'g world \<Rightarrow> error + 'g world" where
  "spawn_tape env w =
    (let coordinates = tape_coordinates env in
     for_range
       (\<lambda>i w. case read_model env ''tape'' of Inl e \<Rightarrow> Inl e | Inr xml \<Rightarrow>
                 spawn env (''tape'' @ str_nat i) xml (coordinates ! i) w)
       [0..<2] w)"

definition spawn_robot :: "'g env \<Rightarrow> 'g world \<Rightarrow> error + 'g world" where
  "spawn_robot env w =
    (case read_model env ''robot'' of Inl e \<Rightarrow> Inl e | Inr xml \<Rightarrow>
       spawn env ''turtlebot'' xml
         [(''x'', Num 11), (''y'', Num (- 11)), (''z'', Num 0),
          (''orientation'', euler_to_quaternion env 0 0 (radians env 180))] w)"

subsection \<open>The golf balls\<close>

text \<open>
  Lines 111 to 117, the body of the inner \<open>while True\<close>: two calls of \<open>random.random()\<close>,
  two stores into the shared \<open>pose\<close> dict, then the unconditional \<open>break\<close> (the retry
  condition above it is a comment). The script's \<open>dist\<close> is \<open>dst\<close> here, \<open>dist\<close> being a
  constant of the logic.
\<close>

definition draw_candidate :: "'g env \<Rightarrow> real \<Rightarrow> dict \<times> 'g \<Rightarrow> ctl \<times> (dict \<times> 'g)" where
  "draw_candidate env dst s =
    (case s of (pose, g) \<Rightarrow>
      (case random_random env g of (r1, g) \<Rightarrow>
        (let pose = setitem ''x'' (Num (r1 * dst - dst / 2)) pose in
         case random_random env g of (r2, g) \<Rightarrow>
          (let pose = setitem ''y'' (Num (r2 * dst - dst / 2)) pose in
           (Break, (pose, g))))))"

text \<open>\<open>point.x = pose['x']\<close>: a \<open>Point\<close> field takes a float and nothing else.\<close>

definition float_field :: "pyval \<Rightarrow> error + real" where
  "float_field v = (case v of Num r \<Rightarrow> Inr r | Dict d \<Rightarrow> Inl AssertionError)"

definition pose_item :: "dict \<Rightarrow> string \<Rightarrow> error + real" where
  "pose_item pose k = (case getitem pose k of Inl e \<Rightarrow> Inl e | Inr v \<Rightarrow> float_field v)"

text \<open>Lines 121 to 124: the \<open>Point\<close> of a ball, read back from the \<open>pose\<close> dict.\<close>

definition make_point :: "dict \<Rightarrow> error + point" where
  "make_point pose =
    (case pose_item pose ''x'' of Inl e \<Rightarrow> Inl e | Inr vx \<Rightarrow>
      (case pose_item pose ''y'' of Inl e \<Rightarrow> Inl e | Inr vy \<Rightarrow>
        (case pose_item pose ''z'' of Inl e \<Rightarrow> Inl e | Inr vz \<Rightarrow>
           Inr \<lparr>point_x = vx, point_y = vy, point_z = vz\<rparr>)))"

text \<open>
  Lines 111 to 133, one pass of the \<open>for\<close> loop. The ball is appended to
  \<open>self.golfballs\<close> before its model file is read and before it is spawned.
\<close>

definition golfball_body ::
  "'g env \<Rightarrow> real \<Rightarrow> nat \<Rightarrow> dict \<times> 'g world \<Rightarrow> (error + dict \<times> 'g world) option" where
  "golfball_body env dst i s =
    (case s of (pose, w) \<Rightarrow>
      (case while_True (draw_candidate env dst) 0 (pose, rng w) of
         None \<Rightarrow> None
       | Some (passes, pose, g) \<Rightarrow>
          (let w = w\<lparr>rng := g\<rparr>;
               name = ''ball'' @ str_nat i
           in Some
             (case make_point pose of Inl e \<Rightarrow> Inl e | Inr point \<Rightarrow>
               (let golfball_info = (point, name);
                    w = w\<lparr>golfballs := golfballs w @ [golfball_info]\<rparr>
                in case read_model env ''golfball'' of Inl e \<Rightarrow> Inl e | Inr xml \<Rightarrow>
                    (case spawn env name xml pose w of Inl e \<Rightarrow> Inl e | Inr w \<Rightarrow>
                       Inr (pose, w)))))))"

fun golfball_loop ::
  "'g env \<Rightarrow> real \<Rightarrow> nat list \<Rightarrow> dict \<times> 'g world \<Rightarrow> (error + dict \<times> 'g world) option" where
  "golfball_loop env dst [] s = Some (Inr s)"
| "golfball_loop env dst (i # is) s =
     (case golfball_body env dst i s of
        None \<Rightarrow> None
      | Some (Inl e) \<Rightarrow> Some (Inl e)
      | Some (Inr s') \<Rightarrow> golfball_loop env dst is s')"

definition spawn_golfballs :: "'g env \<Rightarrow> 'g world \<Rightarrow> (error + 'g world) option" where
  "spawn_golfballs env w =
    (case random_randint env 30 60 (rng w) of (num_golfballs, g) \<Rightarrow>
      (let w = w\<lparr>rng := g\<rparr>;
           pose = [(''z'', Num 0.0)];
           dst = feet_to_meters env 75
       in case golfball_loop env dst [0..<nat num_golfballs] (pose, w) of
            None \<Rightarrow> None
          | Some (Inl e) \<Rightarrow> Some (Inl e)
          | Some (Inr (pose, w)) \<Rightarrow> Some (Inr w)))"

subsection \<open>create\_world, publish\_golfballs and the constructor\<close>

definition create_world :: "'g env \<Rightarrow> 'g world \<Rightarrow> (error + 'g world) option" where
  "create_world env w =
    (case spawn_grass env w of Inl e \<Rightarrow> Some (Inl e) | Inr w \<Rightarrow>
      (case spawn_tape env w of Inl e \<Rightarrow> Some (Inl e) | Inr w \<Rightarrow>
        (case spawn_robot env w of Inl e \<Rightarrow> Some (Inl e) | Inr w \<Rightarrow>
           spawn_golfballs env w)))"

text \<open>
  \<open>a, b = zip(*pairs)\<close>: the list of pairs becomes a pair of sequences; with no pair at
  all \<open>zip\<close> yields nothing and the unpacking raises \<open>ValueError\<close>.
\<close>

definition zip_star :: "('a \<times> 'b) list \<Rightarrow> error + 'a list \<times> 'b list" where
  "zip_star pairs = (if pairs = [] then Inl ValueError else Inr (map fst pairs, map snd pairs))"

definition publish_golfballs :: "'g env \<Rightarrow> 'g world \<Rightarrow> (error + 'g world) option" where
  "publish_golfballs env w =
    (case wait_loop (wait_for_service env ''/golfball_poses'')
            (emit [Log INFO ''Waiting for /golfball_poses service...'']) 0 w of
       None \<Rightarrow> None
     | Some w \<Rightarrow> Some
        (case zip_star (golfballs w) of Inl e \<Rightarrow> Inl e | Inr (points, names) \<Rightarrow>
          (let request = \<lparr>req_golfballs = points, req_names = names\<rparr> in
           Inr (emit [Call_SendGolfBallPoses request,
                      Add_done_callback Publish_golfballs_results] w))))"

text \<open>
  The done-callback of \<open>publish_golfballs\<close>. An unsuccessful response raises a bare
  \<open>Exception()\<close> inside the \<open>try\<close>, which the same handler catches.
\<close>

definition publish_golfballs_results ::
  "py_exception + poses_response \<Rightarrow> 'g world \<Rightarrow> py_exception + 'g world" where
  "publish_golfballs_results outcome w =
    (let tried =
       (case outcome of
          Inl e \<Rightarrow> Inl e
        | Inr response \<Rightarrow>
            if \<not> success response then Inl \<lparr>exc_str = [], exc_repr = ''Exception()''\<rparr>
            else Inr ())
     in case tried of
          Inl e \<Rightarrow> Inr (emit [Log FATAL (''Could not send golf ball poses. Exception: '' @ exc_str e)] w)
        | Inr u \<Rightarrow> Inr w)"

text \<open>A node that has logged and sent nothing yet, beside a random generator in state \<open>g\<close>.\<close>

definition new_node :: "'g \<Rightarrow> 'g world" where
  "new_node g = \<lparr>golfballs = [], trace = [], rng = g\<rparr>"

text \<open>\<open>CreateWorld.__init__\<close>, lines 20 to 33.\<close>

definition CreateWorld_init :: "'g env \<Rightarrow> 'g world \<Rightarrow> (error + 'g world) option" where
  "CreateWorld_init env w =
    (case wait_loop (wait_for_service env ''/spawn_entity'')
            (emit [Log WARN ''Service not available. Waiting...'']) 0 w of
       None \<Rightarrow> None
     | Some w \<Rightarrow>
        (let w = emit [Log INFO ''world_creator node has started''] w;
             w = w\<lparr>golfballs := []\<rparr>
         in case create_world env w of
              None \<Rightarrow> None
            | Some (Inl e) \<Rightarrow> Some (Inl e)
            | Some (Inr w) \<Rightarrow> publish_golfballs env w))"

section \<open>The addition client: client\_member\_function.py\<close>

text \<open>
  \<open>example_interfaces.srv.AddTwoInts\<close>: a request of two integers, a response with their
  sum.
\<close>

record add_request =
  req_a :: int
  req_b :: int

record add_response =
  resp_sum :: int

datatype client_event =
    Rclpy_init
  | Client_log string
  | Call_AddTwoInts add_request
  | Spin_once
  | Future_result
  | Destroy_node
  | Rclpy_shutdown

text \<open>
  The surroundings of the client:
  \<^item> \<open>sys.argv\<close> and Python's \<open>int\<close> on a string;
  \<^item> the freshly constructed \<open>AddTwoInts.Request()\<close>;
  \<^item> the answer to the \<open>i\<close>-th \<open>wait_for_service\<close>, to the \<open>i\<close>-th \<open>rclpy.ok()\<close>, and
    of \<open>future.done()\<close> after the \<open>i\<close>-th \<open>spin_once\<close>;
  \<^item> what \<open>future.result()\<close> raises or returns.
\<close>

record client_env =
  argv :: "string list"
  py_int :: "string \<Rightarrow> error + int"
  AddTwoInts_Request :: add_request
  service_ready :: "nat \<Rightarrow> bool"
  rclpy_ok :: "nat \<Rightarrow> bool"
  future_done :: "nat \<Rightarrow> bool"
  future_outcome :: "py_exception + add_response"

text \<open>
  The node: \<open>self.req\<close>, \<open>self.future\<close> (the request of the pending call, once there is
  one) and what the process has done so far.
\<close>

record minimal_client =
  req :: add_request
  future :: "add_request option"
  events :: "client_event list"

definition client_emit :: "client_event list \<Rightarrow> minimal_client \<Rightarrow> minimal_client" where
  "client_emit es c = c\<lparr>events := events c @ es\<rparr>"

text \<open>\<open>xs[i]\<close> for an index that is not negative.\<close>

definition list_index :: "'a list \<Rightarrow> nat \<Rightarrow> error + 'a" where
  "list_index xs i = (if i < length xs then Inr (xs ! i) else Inl IndexError)"

definition MinimalClientAsync_init :: "client_env \<Rightarrow> minimal_client \<Rightarrow> minimal_client option" where
  "MinimalClientAsync_init env c =
    (case wait_loop (service_ready env)
            (client_emit [Client_log ''service not available, waiting again...'']) 0 c of
       None \<Rightarrow> None
     | Some c \<Rightarrow> Some (c\<lparr>req := AddTwoInts_Request env\<rparr>))"

definition send_request :: "client_env \<Rightarrow> minimal_client \<Rightarrow> error + minimal_client" where
  "send_request env c =
    (case list_index (argv env) 1 of Inl e \<Rightarrow> Inl e | Inr arg1 \<Rightarrow>
      (case py_int env arg1 of Inl e \<Rightarrow> Inl e | Inr va \<Rightarrow>
        (let c = c\<lparr>req := (req c)\<lparr>req_a := va\<rparr>\<rparr> in
         case list_index (argv env) 2 of Inl e \<Rightarrow> Inl e | Inr arg2 \<Rightarrow>
          (case py_int env arg2 of Inl e \<Rightarrow> Inl e | Inr vb \<Rightarrow>
            (let c = c\<lparr>req := (req c)\<lparr>req_b := vb\<rparr>\<rparr>;
                 c = client_emit [Call_AddTwoInts (req c)] c
             in Inr (c\<lparr>future := Some (req c)\<rparr>))))))"

text \<open>
  Lines 40 to 47: \<open>try\<close> \<open>future.result()\<close>, \<open>except Exception\<close> log the failure,
  \<open>else\<close> log the sum. Both branches fall through to the \<open>break\<close>.
\<close>

definition process_result :: "client_env \<Rightarrow> minimal_client \<Rightarrow> minimal_client" where
  "process_result env c =
    (let c = client_emit [Future_result] c in
     case future_outcome env of
       Inl e \<Rightarrow> client_emit [Client_log (''Service call failed ('' @ exc_repr e @ '',)'')] c
     | Inr response \<Rightarrow>
         client_emit
           [Client_log (''Result of add_two_ints: for '' @ str_int (req_a (req c)) @ '' + ''
              @ str_int (req_b (req c)) @ '' = '' @ str_int (resp_sum response))] c)"

text \<open>
  Lines 37 to 49: \<open>while rclpy.ok():\<close> spin once, and when the future is done process
  its result and \<open>break\<close>. The loop ends without processing anything when \<open>rclpy.ok()\<close>
  turns false first, and does not end when neither happens.
\<close>

partial_function (option) poll_loop :: "client_env \<Rightarrow> nat \<Rightarrow> minimal_client \<Rightarrow> minimal_client option" where
  "poll_loop env i c =
    (if \<not> rclpy_ok env i then Some c
     else (let c = client_emit [Spin_once] c in
           if future_done env i then Some (process_result env c)
           else poll_loop env (Suc i) c))"

declare poll_loop.simps [code]

definition fresh_client :: "client_env \<Rightarrow> minimal_client" where
  "fresh_client env = \<lparr>req = AddTwoInts_Request env, future = None, events = []\<rparr>"

definition main :: "client_env \<Rightarrow> (error + minimal_client) option" where
  "main env =
    (let c = client_emit [Rclpy_init] (fresh_client env) in
     case MinimalClientAsync_init env c of
       None \<Rightarrow> None
     | Some minimal_client \<Rightarrow>
        (case send_request env minimal_client of
           Inl e \<Rightarrow> Some (Inl e)
         | Inr minimal_client \<Rightarrow>
            (case poll_loop env 0 minimal_client of
               None \<Rightarrow> None
             | Some minimal_client \<Rightarrow>
                 Some (Inr (client_emit [Destroy_node, Rclpy_shutdown] minimal_client)))))"

section \<open>Reading a trace, and the balls as a function of the random numbers\<close>

text \<open>The requests of each kind in a trace, in the order they were sent.\<close>

fun spawn_requests :: "event list \<Rightarrow> spawn_request list" where
  "spawn_requests [] = []"
| "spawn_requests (Call_SpawnEntity rq # es) = rq # spawn_requests es"
| "spawn_requests (e # es) = spawn_requests es"

fun send_requests :: "event list \<Rightarrow> poses_request list" where
  "send_requests [] = []"
| "send_requests (Call_SendGolfBallPoses rq # es) = rq # send_requests es"
| "send_requests (e # es) = send_requests es"

text \<open>
  What \<open>euler_to_quaternion\<close> is expected to return: a dict with a number under each of
  \<open>'x'\<close>, \<open>'y'\<close>, \<open>'z'\<close>, \<open>'w'\<close>. \<open>quaternion_of\<close> reads such a dict and rejects anything else.
\<close>

definition quaternion_of :: "pyval \<Rightarrow> quaternion option" where
  "quaternion_of v =
    (case v of
       Num r \<Rightarrow> None
     | Dict d \<Rightarrow>
        (case (map_of d ''x'', map_of d ''y'', map_of d ''z'', map_of d ''w'') of
           (Some (Num qx), Some (Num qy), Some (Num qz), Some (Num qw)) \<Rightarrow>
             Some \<lparr>quat_x = qx, quat_y = qy, quat_z = qz, quat_w = qw\<rparr>
         | _ \<Rightarrow> None))"

text \<open>
  The balls that \<open>spawn_golfballs\<close> is meant to produce for the indices \<open>is\<close>, written
  as a plain recursion over the random numbers: two draws per ball, no loop, no dict.
  The loop of the script is compared with it below.
\<close>

fun drawn_balls :: "'g env \<Rightarrow> real \<Rightarrow> nat list \<Rightarrow> 'g \<Rightarrow> (point \<times> string) list \<times> 'g" where
  "drawn_balls env dst [] g = ([], g)"
| "drawn_balls env dst (i # is) g =
     (case random_random env g of (r1, g1) \<Rightarrow>
       (case random_random env g1 of (r2, g2) \<Rightarrow>
         (case drawn_balls env dst is g2 of (balls, g') \<Rightarrow>
           ((\<lparr>point_x = r1 * dst - dst / 2, point_y = r2 * dst - dst / 2, point_z = 0\<rparr>,
             ''ball'' @ str_nat i) # balls, g'))))"

text \<open>The request that spawns one ball, and the events that one ball leaves in the trace.\<close>

definition ball_request :: "'g env \<Rightarrow> string \<Rightarrow> point \<times> string \<Rightarrow> spawn_request" where
  "ball_request env xml ball =
    (SpawnEntity_Request env)
      \<lparr>entity_name := snd ball, entity_xml := xml,
       initial_pose := (initial_pose (SpawnEntity_Request env))\<lparr>position := fst ball\<rparr>\<rparr>"

definition ball_events :: "'g env \<Rightarrow> string \<Rightarrow> (point \<times> string) list \<Rightarrow> event list" where
  "ball_events env xml balls =
    concat (map (\<lambda>ball. [Call_SpawnEntity (ball_request env xml ball),
                           Add_done_callback (Spawn_result (snd ball))]) balls)"

text \<open>
  Surroundings in which nothing the script relies on fails: the four model files can be
  read, and \<open>euler_to_quaternion\<close> returns a quaternion dict for the two angles it is
  asked about.
\<close>

definition cooperative :: "'g env \<Rightarrow> bool" where
  "cooperative env \<longleftrightarrow>
     list_all (\<lambda>key. isl (read_model env key) = False) [''grass'', ''tape'', ''robot'', ''golfball'']
   \<and> quaternion_of (euler_to_quaternion env 0 0 (radians env 90)) \<noteq> None
   \<and> quaternion_of (euler_to_quaternion env 0 0 (radians env 180)) \<noteq> None"

text \<open>The requests the client has sent, in order, as read off its events.\<close>

fun calls :: "client_event list \<Rightarrow> add_request list" where
  "calls [] = []"
| "calls (Call_AddTwoInts rq # es) = rq # calls es"
| "calls (e # es) = calls es"

section \<open>Concrete surroundings\<close>

text \<open>
  One world and one command line on which every definition above evaluates. The
  generator is a counter: \<open>randint\<close> and \<open>random\<close> derive their value from it and step it.
\<close>

definition demo_env :: "nat env" where
  "demo_env =
    \<lparr>feet_to_meters = (\<lambda>feet. feet * 0.3048),
     euler_to_quaternion =
       (\<lambda>roll pitch yaw. Dict [(''x'', Num 0), (''y'', Num 0), (''z'', Num 1), (''w'', Num 0)]),
     radians = (\<lambda>deg. deg * 355 / (113 * 180)),
     model_paths = [(''grass'', ''grass.sdf''), (''tape'', ''tape.sdf''),
                    (''robot'', ''robot.sdf''), (''golfball'', ''golfball.sdf'')],
     read_file = (\<lambda>path. Inr (''<sdf '' @ path @ ''>'')),
     SpawnEntity_Request =
       \<lparr>entity_name = [], entity_xml = [],
        initial_pose = \<lparr>position = \<lparr>point_x = 0, point_y = 0, point_z = 0\<rparr>,
                        orientation = \<lparr>quat_x = 0, quat_y = 0, quat_z = 0, quat_w = 1\<rparr>\<rparr>\<rparr>,
     random_randint = (\<lambda>lo hi g. (lo + int g mod (hi - lo + 1), Suc g)),
     random_random = (\<lambda>g. (real (g mod 10) / 10, Suc g)),
     wait_for_service = (\<lambda>srv i. 1 \<le> i),
     str_response = (\<lambda>r. status_message r)\<rparr>"

definition demo_client_env :: client_env where
  "demo_client_env =
    \<lparr>argv = [''client'', ''2'', ''3''],
     py_int = (\<lambda>s. if s = ''2'' then Inr 2 else if s = ''3'' then Inr 3 else Inl ValueError),
     AddTwoInts_Request = \<lparr>req_a = 0, req_b = 0\<rparr>,
     service_ready = (\<lambda>i. 1 \<le> i),
     rclpy_ok = (\<lambda>i. True),
     future_done = (\<lambda>i. 2 \<le> i),
     future_outcome = Inr \<lparr>resp_sum = 5\<rparr>\<rparr>"


section \<open>Dictionaries and loops: basic facts\<close>

lemma map_of_setitem: "map_of (setitem k v d) = (map_of d)(k \<mapsto> v)"
  by (induction d) (auto simp: fun_eq_iff)

lemma float_item_Num: "map_of d k = Some (Num r) \<Longrightarrow> float_item (Dict d) k = Inr r"
  by (simp add: float_item_def subscript_def getitem_def py_float_def)

lemma set_position_ok:
  assumes "map_of pose ''x'' = Some (Num vx)" "map_of pose ''y'' = Some (Num vy)"
    "map_of pose ''z'' = Some (Num vz)"
  shows "set_position pose rq =
    Inr (rq\<lparr>initial_pose := (initial_pose rq)\<lparr>position := \<lparr>point_x = vx, point_y = vy, point_z = vz\<rparr>\<rparr>\<rparr>)"
  using assms by (simp add: set_position_def float_item_Num upd_position_def)

lemma orientation_block_missing:
  "map_of pose ''orientation'' = None \<Longrightarrow>
     orientation_block pose rq = (Some (KeyError ''orientation''), rq)"
  by (simp add: orientation_block_def getitem_def)

lemma set_orientation_missing:
  "map_of pose ''orientation'' = None \<Longrightarrow> set_orientation pose rq = Inr rq"
  by (simp add: set_orientation_def orientation_block_missing)

lemma spawn_plain:
  assumes "map_of pose ''orientation'' = None"
    and "map_of pose ''x'' = Some (Num vx)"
    and "map_of pose ''y'' = Some (Num vy)"
    and "map_of pose ''z'' = Some (Num vz)"
  shows "spawn env name xml pose w =
      Inr (emit [Call_SpawnEntity
                  ((SpawnEntity_Request env)
                    \<lparr>entity_name := name, entity_xml := xml,
                     initial_pose := (initial_pose (SpawnEntity_Request env))
                        \<lparr>position := \<lparr>point_x = vx, point_y = vy, point_z = vz\<rparr>\<rparr>\<rparr>),
                 Add_done_callback (Spawn_result name)] w)"
  using assms by (simp add: spawn_def set_position_ok set_orientation_missing)

lemma while_True_draw:
  "while_True (draw_candidate env dst) n (pose, g) =
     (case random_random env g of (r1, g1) \<Rightarrow>
       (case random_random env g1 of (r2, g2) \<Rightarrow>
          Some (Suc n, setitem ''y'' (Num (r2 * dst - dst / 2))
                     (setitem ''x'' (Num (r1 * dst - dst / 2)) pose), g2)))"
  by (subst while_True.simps) (simp add: draw_candidate_def split: prod.splits)

lemma wait_loop_returns:
  "ready (i + k) \<Longrightarrow> (\<forall>j<k. \<not> ready (i + j)) \<Longrightarrow>
     wait_loop ready waiting i s = Some ((waiting ^^ k) s)"
proof (induction k arbitrary: i s)
  case 0
  then show ?case by (subst wait_loop.simps) simp
next
  case (Suc k)
  have "\<not> ready i" using Suc.prems(2) [rule_format, of 0] by simp
  moreover have "wait_loop ready waiting (Suc i) (waiting s) = Some ((waiting ^^ k) (waiting s))"
  proof (rule Suc.IH)
    show "ready (Suc i + k)" using Suc.prems(1) by simp
    show "\<forall>j<k. \<not> ready (Suc i + j)"
      using Suc.prems(2) by (metis Suc_less_eq add_Suc_shift)
  qed
  ultimately show ?case
    by (subst wait_loop.simps) (simp add: funpow_swap1)
qed

lemma emit_funpow: "(emit [e] ^^ k) w = emit (replicate k e) w"
  by (induction k arbitrary: w) (simp_all add: emit_def replicate_append_same)

lemma wait_loop_Some:
  assumes "wait_loop ready waiting i s = Some s'"
  shows "\<exists>k. ready (i + k) \<and> (\<forall>j<k. \<not> ready (i + j)) \<and> s' = (waiting ^^ k) s"
proof (rule wait_loop.raw_induct [OF _ assms])
  fix loop :: "(nat \<Rightarrow> bool) \<Rightarrow> ('a \<Rightarrow> 'a) \<Rightarrow> nat \<Rightarrow> 'a \<Rightarrow> 'a option"
  fix ready waiting i s s'
  assume IH: "\<And>ready waiting i s s'. loop ready waiting i s = Some s' \<Longrightarrow>
     \<exists>k. ready (i + k) \<and> (\<forall>j<k. \<not> ready (i + j)) \<and> s' = (waiting ^^ k) s"
  assume body: "(if ready i then Some s else loop ready waiting (Suc i) (waiting s)) = Some s'"
  show "\<exists>k. ready (i + k) \<and> (\<forall>j<k. \<not> ready (i + j)) \<and> s' = (waiting ^^ k) s"
  proof (cases "ready i")
    case True
    with body have "s' = s" by simp
    with True show ?thesis by (intro exI [of _ 0]) simp
  next
    case False
    with body have "loop ready waiting (Suc i) (waiting s) = Some s'" by simp
    from IH [OF this] obtain k where k: "ready (Suc i + k)" "\<forall>j<k. \<not> ready (Suc i + j)"
      "s' = (waiting ^^ k) (waiting s)" by blast
    have "\<forall>j<Suc k. \<not> ready (i + j)"
    proof (intro allI impI)
      fix j assume "j < Suc k"
      then show "\<not> ready (i + j)" using False k(2) by (cases j) simp_all
    qed
    with k(1,3) show ?thesis by (intro exI [of _ "Suc k"]) (simp add: funpow_swap1)
  qed
qed

section \<open>Facts about the golf-ball loop\<close>

lemma spawn_requests_append: "spawn_requests (xs @ ys) = spawn_requests xs @ spawn_requests ys"
  by (induction xs rule: spawn_requests.induct) simp_all

lemma send_requests_append: "send_requests (xs @ ys) = send_requests xs @ send_requests ys"
  by (induction xs rule: send_requests.induct) simp_all

lemma pose_item_Num: "map_of d k = Some (Num r) \<Longrightarrow> pose_item d k = Inr r"
  by (simp add: pose_item_def getitem_def float_field_def)

lemma make_point_ok:
  assumes "map_of pose ''x'' = Some (Num vx)" "map_of pose ''y'' = Some (Num vy)"
    "map_of pose ''z'' = Some (Num vz)"
  shows "make_point pose = Inr \<lparr>point_x = vx, point_y = vy, point_z = vz\<rparr>"
  using assms by (simp add: make_point_def pose_item_Num)

lemma golfball_body_ok:
  assumes z: "map_of pose ''z'' = Some (Num 0)"
    and no: "map_of pose ''orientation'' = None"
    and model: "read_model env ''golfball'' = Inr xml"
    and r1: "random_random env (rng w) = (r1, g1)"
    and r2: "random_random env g1 = (r2, g2)"
    and ball: "ball = (\<lparr>point_x = r1 * dst - dst / 2, point_y = r2 * dst - dst / 2, point_z = 0\<rparr>,
                       ''ball'' @ str_nat i)"
  shows "golfball_body env dst i (pose, w) =
    Some (Inr (setitem ''y'' (Num (r2 * dst - dst / 2)) (setitem ''x'' (Num (r1 * dst - dst / 2)) pose),
       w\<lparr>rng := g2,
         golfballs := golfballs w @ [ball],
         trace := trace w @ ball_events env xml [ball]\<rparr>))"
proof -
  let ?pose = "setitem ''y'' (Num (r2 * dst - dst / 2)) (setitem ''x'' (Num (r1 * dst - dst / 2)) pose)"
  have x': "map_of ?pose ''x'' = Some (Num (r1 * dst - dst / 2))"
    and y': "map_of ?pose ''y'' = Some (Num (r2 * dst - dst / 2))"
    and z': "map_of ?pose ''z'' = Some (Num 0)"
    and no': "map_of ?pose ''orientation'' = None"
    using z no by (simp_all add: map_of_setitem)
  show ?thesis
    by (simp add: golfball_body_def while_True_draw r1 r2 make_point_ok [OF x' y' z'] model
        spawn_plain [OF no' x' y' z'] emit_def ball_events_def ball_request_def ball Let_def)
qed

lemma drawn_balls_step:
  assumes "random_random env g = (r1, g1)" and "random_random env g1 = (r2, g2)"
  shows "drawn_balls env dst (i # is) g =
     ((\<lparr>point_x = r1 * dst - dst / 2, point_y = r2 * dst - dst / 2, point_z = 0\<rparr>,
       ''ball'' @ str_nat i) # fst (drawn_balls env dst is g2),
      snd (drawn_balls env dst is g2))"
  using assms by (simp split: prod.splits)

lemma ball_events_Cons:
  "ball_events env xml (b # bs) = ball_events env xml [b] @ ball_events env xml bs"
  by (simp add: ball_events_def)

lemma golfball_loop_ok:
  assumes "map_of pose ''z'' = Some (Num 0)"
    and "map_of pose ''orientation'' = None"
    and model: "read_model env ''golfball'' = Inr xml"
  shows "\<exists>pose'. golfball_loop env dst is (pose, w) =
    Some (Inr (pose',
       w\<lparr>rng := snd (drawn_balls env dst is (rng w)),
         golfballs := golfballs w @ fst (drawn_balls env dst is (rng w)),
         trace := trace w @ ball_events env xml (fst (drawn_balls env dst is (rng w)))\<rparr>))"
  using assms(1,2)
proof (induction "is" arbitrary: pose w)
  case Nil
  then show ?case by (simp add: ball_events_def)
next
  case (Cons i "is")
  obtain r1 g1 where r1: "random_random env (rng w) = (r1, g1)" by (cases "random_random env (rng w)")
  obtain r2 g2 where r2: "random_random env g1 = (r2, g2)" by (cases "random_random env g1")
  define ball where "ball = (\<lparr>point_x = r1 * dst - dst / 2, point_y = r2 * dst - dst / 2, point_z = 0\<rparr>,
                       ''ball'' @ str_nat i)"
  let ?pose = "setitem ''y'' (Num (r2 * dst - dst / 2)) (setitem ''x'' (Num (r1 * dst - dst / 2)) pose)"
  let ?w = "w\<lparr>rng := g2, golfballs := golfballs w @ [ball],
               trace := trace w @ ball_events env xml [ball]\<rparr>"
  have step: "golfball_body env dst i (pose, w) = Some (Inr (?pose, ?w))"
    by (rule golfball_body_ok [OF Cons.prems model r1 r2 ball_def])
  have z': "map_of ?pose ''z'' = Some (Num 0)" and no': "map_of ?pose ''orientation'' = None"
    using Cons.prems by (simp_all add: map_of_setitem)
  have unfold: "drawn_balls env dst (i # is) (rng w) =
      (ball # fst (drawn_balls env dst is g2), snd (drawn_balls env dst is g2))"
    unfolding ball_def by (rule drawn_balls_step [OF r1 r2])
  from Cons.IH [OF z' no', of ?w] obtain pose' where
    rest: "golfball_loop env dst is (?pose, ?w) =
      Some (Inr (pose', ?w\<lparr>rng := snd (drawn_balls env dst is (rng ?w)),
         golfballs := golfballs ?w @ fst (drawn_balls env dst is (rng ?w)),
         trace := trace ?w @ ball_events env xml (fst (drawn_balls env dst is (rng ?w)))\<rparr>))"
    by blast
  have "golfball_loop env dst (i # is) (pose, w) = golfball_loop env dst is (?pose, ?w)"
    by (simp only: golfball_loop.simps step option.case sum.case)
  also note rest
  finally show ?case
    by (simp add: unfold ball_events_Cons [of env xml ball "fst (drawn_balls env dst is g2)"]
        del: drawn_balls.simps)
qed

lemma fst_drawn_balls_Cons:
  "fst (drawn_balls env dst (i # is) g) =
     (\<lparr>point_x = fst (random_random env g) * dst - dst / 2,
       point_y = fst (random_random env (snd (random_random env g))) * dst - dst / 2,
       point_z = 0\<rparr>, ''ball'' @ str_nat i)
     # fst (drawn_balls env dst is (snd (random_random env (snd (random_random env g)))))"
  by (simp split: prod.splits)

lemma length_drawn_balls: "length (fst (drawn_balls env dst is g)) = length is"
  by (induction "is" arbitrary: g) (simp_all add: fst_drawn_balls_Cons del: drawn_balls.simps(2))

lemma names_drawn_balls:
  "map snd (fst (drawn_balls env dst is g)) = map (\<lambda>i. ''ball'' @ str_nat i) is"
  by (induction "is" arbitrary: g) (simp_all add: fst_drawn_balls_Cons del: drawn_balls.simps(2))



lemma spawn_golfballs_ok:
  assumes model: "read_model env ''golfball'' = Inr xml"
    and n: "random_randint env 30 60 (rng w) = (n, g)"
    and balls: "balls = drawn_balls env (feet_to_meters env 75) [0..<nat n] g"
  shows "spawn_golfballs env w =
    Some (Inr (w\<lparr>rng := snd balls,
                 golfballs := golfballs w @ fst balls,
                 trace := trace w @ ball_events env xml (fst balls)\<rparr>))"
proof -
  have z: "map_of [(''z'', Num 0)] ''z'' = Some (Num 0)"
    and no: "map_of [(''z'', Num 0)] ''orientation'' = None" by simp_all
  from golfball_loop_ok [OF z no model, of "feet_to_meters env 75" "[0..<nat n]" "w\<lparr>rng := g\<rparr>"]
  obtain pose' where
    "golfball_loop env (feet_to_meters env 75) [0..<nat n] ([(''z'', Num 0)], w\<lparr>rng := g\<rparr>) =
      Some (Inr (pose', w\<lparr>rng := g\<rparr>\<lparr>rng := snd balls,
         golfballs := golfballs (w\<lparr>rng := g\<rparr>) @ fst balls,
         trace := trace (w\<lparr>rng := g\<rparr>) @ ball_events env xml (fst balls)\<rparr>))"
    unfolding balls by auto
  then show ?thesis
    by (simp add: spawn_golfballs_def n Let_def)
qed

section \<open>Decimal numerals are unambiguous\<close>

lemma of_char_digit_char: "d < 10 \<Longrightarrow> of_char (digit_char d) = (48 + d :: nat)"
proof -
  assume "d < 10"
  then have "d \<in> {0, 1, 2, 3, 4, 5, 6, 7, 8, 9}" by auto
  then show ?thesis by (auto simp: digit_char_def)
qed

lemma nat_of_digits_str_nat: "nat_of_digits (str_nat n) = n"
proof (induction n rule: str_nat.induct)
  case (1 n)
  show ?case
  proof (cases "n < 10")
    case True
    then show ?thesis by (subst str_nat.simps) (simp add: of_char_digit_char nat_of_digits_def)
  next
    case False
    with 1 have "nat_of_digits (str_nat (n div 10)) = n div 10" by simp
    with False show ?thesis
      by (subst str_nat.simps) (simp add: of_char_digit_char nat_of_digits_def)
  qed
qed

lemma str_nat_inj: "str_nat a = str_nat b \<Longrightarrow> a = b"
  by (metis nat_of_digits_str_nat)

lemma distinct_ball_names: "distinct (map (\<lambda>i. ''ball'' @ str_nat i) [0..<n])"
  by (simp add: distinct_map inj_on_def str_nat_inj)

section \<open>What every spawn leaves in the trace\<close>

lemma entity_name_set_position:
  "set_position pose rq = Inr rq' \<Longrightarrow> entity_name rq' = entity_name rq"
  by (auto simp: set_position_def upd_position_def Let_def split: sum.splits)

lemma entity_name_orientation_block:
  "entity_name (snd (orientation_block pose rq)) = entity_name rq"
  by (simp add: orientation_block_def upd_orientation_def Let_def split: sum.splits)

lemma entity_name_set_orientation:
  "set_orientation pose rq = Inr rq' \<Longrightarrow> entity_name rq' = entity_name rq"
  using entity_name_orientation_block [of pose rq]
  by (auto simp: set_orientation_def split: prod.splits option.splits error.splits)

lemma spawn_emits:
  assumes "spawn env name xml pose w = Inr w'"
  shows "\<exists>rq. entity_name rq = name
     \<and> w' = emit [Call_SpawnEntity rq, Add_done_callback (Spawn_result name)] w"
proof -
  let ?rq = "(SpawnEntity_Request env)\<lparr>entity_name := name, entity_xml := xml\<rparr>"
  from assms obtain rq1 rq2 where 1: "set_position pose ?rq = Inr rq1"
    and 2: "set_orientation pose rq1 = Inr rq2"
    and w': "w' = emit [Call_SpawnEntity rq2, Add_done_callback (Spawn_result name)] w"
    by (auto simp: spawn_def Let_def split: sum.splits)
  have "entity_name rq2 = name"
    using entity_name_set_position [OF 1] entity_name_set_orientation [OF 2] by simp
  with w' show ?thesis by blast
qed

lemma spawn_grass_emits:
  "spawn_grass env w = Inr w' \<Longrightarrow>
     \<exists>rq. entity_name rq = ''grass''
       \<and> w' = emit [Call_SpawnEntity rq, Add_done_callback (Spawn_result ''grass'')] w"
  by (auto simp: spawn_grass_def split: sum.splits dest: spawn_emits)

lemma spawn_robot_emits:
  "spawn_robot env w = Inr w' \<Longrightarrow>
     \<exists>rq. entity_name rq = ''turtlebot''
       \<and> w' = emit [Call_SpawnEntity rq, Add_done_callback (Spawn_result ''turtlebot'')] w"
  by (auto simp: spawn_robot_def split: sum.splits dest: spawn_emits)

lemma str_nat_0: "str_nat 0 = ''0''" and str_nat_1: "str_nat (Suc 0) = ''1''"
  by (simp_all add: str_nat.simps digit_char_def)

lemma range_2: "[0..<2] = [0, Suc 0]"
  by (simp add: upt_rec)

lemma spawn_tape_emits:
  assumes "spawn_tape env w = Inr w'"
  shows "\<exists>rq0 rq1. entity_name rq0 = ''tape0'' \<and> entity_name rq1 = ''tape1''
     \<and> w' = emit [Call_SpawnEntity rq0, Add_done_callback (Spawn_result ''tape0''),
                  Call_SpawnEntity rq1, Add_done_callback (Spawn_result ''tape1'')] w"
proof -
  from assms obtain xml0 w0 xml1 where
    a: "spawn env ''tape0'' xml0 (tape_coordinates env ! 0) w = Inr w0"
    and b: "spawn env ''tape1'' xml1 (tape_coordinates env ! 1) w0 = Inr w'"
    by (auto simp: spawn_tape_def range_2 Let_def str_nat_0 str_nat_1 split: sum.splits)
  from spawn_emits [OF a] obtain rq0 where
    rq0: "entity_name rq0 = ''tape0''"
      "w0 = emit [Call_SpawnEntity rq0, Add_done_callback (Spawn_result ''tape0'')] w"
    by blast
  from spawn_emits [OF b] obtain rq1 where
    rq1: "entity_name rq1 = ''tape1''"
      "w' = emit [Call_SpawnEntity rq1, Add_done_callback (Spawn_result ''tape1'')] w0"
    by blast
  have "w' = emit [Call_SpawnEntity rq0, Add_done_callback (Spawn_result ''tape0''),
                  Call_SpawnEntity rq1, Add_done_callback (Spawn_result ''tape1'')] w"
    by (simp add: rq0(2) rq1(2) emit_def)
  with rq0(1) rq1(1) show ?thesis by blast
qed

lemma spawn_requests_ball_events:
  "spawn_requests (ball_events env xml balls) = map (ball_request env xml) balls"
  by (induction balls) (simp_all add: ball_events_def)

lemma send_requests_ball_events: "send_requests (ball_events env xml balls) = []"
  by (induction balls) (simp_all add: ball_events_def)

lemma entity_name_ball_request: "entity_name (ball_request env xml ball) = snd ball"
  by (simp add: ball_request_def)


lemma golfball_body_fails:
  assumes z: "map_of pose ''z'' = Some (Num 0)"
    and model: "read_model env ''golfball'' = Inl e"
  shows "golfball_body env dst i (pose, w) = Some (Inl e)"
proof -
  obtain r1 g1 where r1: "random_random env (rng w) = (r1, g1)" by (cases "random_random env (rng w)")
  obtain r2 g2 where r2: "random_random env g1 = (r2, g2)" by (cases "random_random env g1")
  let ?pose = "setitem ''y'' (Num (r2 * dst - dst / 2)) (setitem ''x'' (Num (r1 * dst - dst / 2)) pose)"
  have x': "map_of ?pose ''x'' = Some (Num (r1 * dst - dst / 2))"
    and y': "map_of ?pose ''y'' = Some (Num (r2 * dst - dst / 2))"
    and z': "map_of ?pose ''z'' = Some (Num 0)"
    using z by (simp_all add: map_of_setitem)
  show ?thesis
    by (simp add: golfball_body_def while_True_draw r1 r2 make_point_ok [OF x' y' z'] model Let_def)
qed

lemma spawn_golfballs_returns:
  assumes ret: "spawn_golfballs env w = Some (Inr w')"
    and n: "random_randint env 30 60 (rng w) = (n, g)"
    and balls: "balls = drawn_balls env (feet_to_meters env 75) [0..<nat n] g"
  shows "\<exists>xml. w' = w\<lparr>rng := snd balls,
                 golfballs := golfballs w @ fst balls,
                 trace := trace w @ ball_events env xml (fst balls)\<rparr>"
proof (cases "read_model env ''golfball''")
  case (Inr xml)
  from spawn_golfballs_ok [OF Inr n balls] ret show ?thesis by auto
next
  case (Inl e)
  show ?thesis
  proof (cases "[0..<nat n]")
    case Nil
    with ret have "w' = w\<lparr>rng := g\<rparr>"
      by (simp add: spawn_golfballs_def n Let_def)
    then show ?thesis by (simp add: balls Nil ball_events_def)
  next
    case (Cons i rest)
    have "golfball_body env (feet_to_meters env 75) i ([(''z'', Num 0)], w\<lparr>rng := g\<rparr>) = Some (Inl e)"
      by (rule golfball_body_fails [OF _ Inl]) simp
    with ret show ?thesis
      by (simp add: spawn_golfballs_def n Let_def Cons)
  qed
qed

lemma spawn_golfballs_terminates: "spawn_golfballs env w \<noteq> None"
proof (cases "read_model env ''golfball''")
  case (Inr xml)
  obtain n g where n: "random_randint env 30 60 (rng w) = (n, g)"
    by (cases "random_randint env 30 60 (rng w)")
  from spawn_golfballs_ok [OF Inr n refl] show ?thesis by simp
next
  case (Inl e)
  obtain n g where n: "random_randint env 30 60 (rng w) = (n, g)"
    by (cases "random_randint env 30 60 (rng w)")
  show ?thesis
  proof (cases "[0..<nat n]")
    case Nil
    then show ?thesis by (simp add: spawn_golfballs_def n Let_def)
  next
    case (Cons i rest)
    have "golfball_body env (feet_to_meters env 75) i ([(''z'', Num 0)], w\<lparr>rng := g\<rparr>) = Some (Inl e)"
      by (rule golfball_body_fails [OF _ Inl]) simp
    then show ?thesis
      by (simp add: spawn_golfballs_def n Let_def Cons)
  qed
qed

section \<open>create\_world, publish\_golfballs and the constructor: results\<close>

lemma create_world_returns:
  assumes ret: "create_world env w = Some (Inr w')"
    and n: "random_randint env 30 60 (rng w) = (n, g)"
    and balls: "balls = drawn_balls env (feet_to_meters env 75) [0..<nat n] g"
  shows "\<exists>evs xml.
      map entity_name (spawn_requests evs) = [''grass'', ''tape0'', ''tape1'', ''turtlebot'']
    \<and> send_requests evs = []
    \<and> w' = w\<lparr>rng := snd balls,
              golfballs := golfballs w @ fst balls,
              trace := trace w @ evs @ ball_events env xml (fst balls)\<rparr>"
proof -
  from ret obtain w1 w2 w3 where
    1: "spawn_grass env w = Inr w1" and 2: "spawn_tape env w1 = Inr w2"
    and 3: "spawn_robot env w2 = Inr w3" and 4: "spawn_golfballs env w3 = Some (Inr w')"
    by (auto simp: create_world_def split: sum.splits)
  from spawn_grass_emits [OF 1] obtain rq where
    rq: "entity_name rq = ''grass''"
      "w1 = emit [Call_SpawnEntity rq, Add_done_callback (Spawn_result ''grass'')] w"
    by blast
  from spawn_tape_emits [OF 2] obtain rq0 rq1 where
    tp: "entity_name rq0 = ''tape0''" "entity_name rq1 = ''tape1''"
      "w2 = emit [Call_SpawnEntity rq0, Add_done_callback (Spawn_result ''tape0''),
                  Call_SpawnEntity rq1, Add_done_callback (Spawn_result ''tape1'')] w1"
    by blast
  from spawn_robot_emits [OF 3] obtain rqr where
    rb: "entity_name rqr = ''turtlebot''"
      "w3 = emit [Call_SpawnEntity rqr, Add_done_callback (Spawn_result ''turtlebot'')] w2"
    by blast
  define evs where "evs =
     [Call_SpawnEntity rq, Add_done_callback (Spawn_result ''grass''),
      Call_SpawnEntity rq0, Add_done_callback (Spawn_result ''tape0''),
      Call_SpawnEntity rq1, Add_done_callback (Spawn_result ''tape1''),
      Call_SpawnEntity rqr, Add_done_callback (Spawn_result ''turtlebot'')]"
  have w3: "w3 = emit evs w" by (simp add: rq(2) tp(3) rb(2) emit_def evs_def)
  have n3: "random_randint env 30 60 (rng w3) = (n, g)" by (simp add: w3 emit_def n)
  from spawn_golfballs_returns [OF 4 n3 balls] obtain xml where
    "w' = w3\<lparr>rng := snd balls, golfballs := golfballs w3 @ fst balls,
              trace := trace w3 @ ball_events env xml (fst balls)\<rparr>" by blast
  then have w': "w' = w\<lparr>rng := snd balls, golfballs := golfballs w @ fst balls,
              trace := trace w @ evs @ ball_events env xml (fst balls)\<rparr>"
    by (simp add: w3 emit_def)
  have names: "map entity_name (spawn_requests evs) = [''grass'', ''tape0'', ''tape1'', ''turtlebot'']"
    by (simp add: evs_def rq(1) tp(1,2) rb(1))
  have sends: "send_requests evs = []" by (simp add: evs_def)
  show ?thesis
    by (rule exI [of _ evs], rule exI [of _ xml]) (simp only: names sends w' simp_thms)
qed

lemma publish_golfballs_returns:
  assumes "publish_golfballs env w = Some (Inr w')"
  shows "\<exists>k. golfballs w \<noteq> []
    \<and> wait_for_service env ''/golfball_poses'' k
    \<and> (\<forall>j<k. \<not> wait_for_service env ''/golfball_poses'' j)
    \<and> w' = emit (replicate k (Log INFO ''Waiting for /golfball_poses service...'')
                 @ [Call_SendGolfBallPoses
                      \<lparr>req_golfballs = map fst (golfballs w), req_names = map snd (golfballs w)\<rparr>,
                    Add_done_callback Publish_golfballs_results]) w"
proof -
  let ?waiting = "emit [Log INFO ''Waiting for /golfball_poses service...'']"
  from assms obtain w1 where
    1: "wait_loop (wait_for_service env ''/golfball_poses'') ?waiting 0 w = Some w1"
    and 2: "(case zip_star (golfballs w1) of Inl e \<Rightarrow> Inl e | Inr (points, names) \<Rightarrow>
          (let request = \<lparr>req_golfballs = points, req_names = names\<rparr> in
           Inr (emit [Call_SendGolfBallPoses request,
                      Add_done_callback Publish_golfballs_results] w1))) = Inr w'"
    by (auto simp: publish_golfballs_def split: option.splits)
  from wait_loop_Some [OF 1] obtain k where
    k: "wait_for_service env ''/golfball_poses'' k"
      "\<forall>j<k. \<not> wait_for_service env ''/golfball_poses'' j"
      "w1 = (?waiting ^^ k) w" by auto
  have w1: "w1 = emit (replicate k (Log INFO ''Waiting for /golfball_poses service...'')) w"
    by (simp add: k(3) emit_funpow)
  have gs: "golfballs w1 = golfballs w" by (simp add: w1 emit_def)
  from 2 have ne: "golfballs w \<noteq> []"
    by (auto simp: zip_star_def gs split: if_splits)
  with 2 have "w' = emit [Call_SendGolfBallPoses
                      \<lparr>req_golfballs = map fst (golfballs w), req_names = map snd (golfballs w)\<rparr>,
                    Add_done_callback Publish_golfballs_results] w1"
    by (simp add: zip_star_def gs)
  then show ?thesis using ne k(1,2) by (intro exI [of _ k]) (simp add: w1 emit_def)
qed

lemma publish_golfballs_ok:
  assumes "wait_for_service env ''/golfball_poses'' k"
    and "\<forall>j<k. \<not> wait_for_service env ''/golfball_poses'' j"
    and "golfballs w \<noteq> []"
  shows "publish_golfballs env w =
     Some (Inr (emit (replicate k (Log INFO ''Waiting for /golfball_poses service...'')
                 @ [Call_SendGolfBallPoses
                      \<lparr>req_golfballs = map fst (golfballs w), req_names = map snd (golfballs w)\<rparr>,
                    Add_done_callback Publish_golfballs_results]) w))"
proof -
  let ?waiting = "emit [Log INFO ''Waiting for /golfball_poses service...'']"
  have "wait_loop (wait_for_service env ''/golfball_poses'') ?waiting 0 w = Some ((?waiting ^^ k) w)"
    by (rule wait_loop_returns) (use assms in simp_all)
  then show ?thesis using assms(3)
    by (simp add: publish_golfballs_def emit_funpow zip_star_def emit_def)
qed

lemma quaternion_ofD:
  assumes "quaternion_of v = Some q"
  shows "\<exists>d. v = Dict d \<and> map_of d ''x'' = Some (Num (quat_x q)) \<and> map_of d ''y'' = Some (Num (quat_y q))
      \<and> map_of d ''z'' = Some (Num (quat_z q)) \<and> map_of d ''w'' = Some (Num (quat_w q))"
  using assms by (auto simp: quaternion_of_def split: pyval.splits option.splits)

lemma set_orientation_ok:
  assumes "map_of pose ''orientation'' = Some v" and "quaternion_of v = Some q"
  shows "set_orientation pose rq = Inr (rq\<lparr>initial_pose := (initial_pose rq)\<lparr>orientation := q\<rparr>\<rparr>)"
proof -
  from quaternion_ofD [OF assms(2)] obtain d where d: "v = Dict d"
    "map_of d ''x'' = Some (Num (quat_x q))" "map_of d ''y'' = Some (Num (quat_y q))"
    "map_of d ''z'' = Some (Num (quat_z q))" "map_of d ''w'' = Some (Num (quat_w q))" by blast
  show ?thesis
    by (simp add: set_orientation_def orientation_block_def getitem_def assms(1) d float_item_Num
        upd_orientation_def)
qed

lemma spawn_oriented:
  assumes "map_of pose ''orientation'' = Some v" and "quaternion_of v = Some q"
    and "map_of pose ''x'' = Some (Num vx)"
    and "map_of pose ''y'' = Some (Num vy)"
    and "map_of pose ''z'' = Some (Num vz)"
  shows "\<exists>w'. spawn env name xml pose w = Inr w'"
  using assms by (simp add: spawn_def set_position_ok set_orientation_ok)

lemma wait_loop_available:
  assumes "\<exists>k. ready k"
  shows "\<exists>k. ready k \<and> (\<forall>j<k. \<not> ready j) \<and> wait_loop ready waiting 0 s = Some ((waiting ^^ k) s)"
proof -
  define k where "k = (LEAST k. ready k)"
  have 1: "ready k" unfolding k_def using assms by (metis LeastI)
  have 2: "\<forall>j<k. \<not> ready j" unfolding k_def using not_less_Least by blast
  have "wait_loop ready waiting 0 s = Some ((waiting ^^ k) s)"
    by (rule wait_loop_returns) (use 1 2 in simp_all)
  with 1 2 show ?thesis by blast
qed

lemma spawn_plain_ok:
  assumes "map_of pose ''orientation'' = None"
    and "map_of pose ''x'' = Some (Num vx)"
    and "map_of pose ''y'' = Some (Num vy)"
    and "map_of pose ''z'' = Some (Num vz)"
  shows "\<exists>w'. spawn env name xml pose w = Inr w'"
  by (simp add: spawn_plain [OF assms])

lemma spawn_grass_ok:
  assumes "read_model env ''grass'' = Inr xml"
  shows "\<exists>w'. spawn_grass env w = Inr w'"
  unfolding spawn_grass_def assms sum.case
  by (rule spawn_plain_ok [where vx = 0 and vy = 0 and vz = 0]) simp_all

lemma spawn_robot_ok:
  assumes "read_model env ''robot'' = Inr xml"
    and q: "quaternion_of (euler_to_quaternion env 0 0 (radians env 180)) = Some q"
  shows "\<exists>w'. spawn_robot env w = Inr w'"
  unfolding spawn_robot_def assms(1) sum.case
  by (rule spawn_oriented [OF _ q, where vx = 11 and vy = "- 11" and vz = 0]) simp_all

lemma spawn_tape_ok:
  assumes "read_model env ''tape'' = Inr xml"
    and q: "quaternion_of (euler_to_quaternion env 0 0 (radians env 90)) = Some q"
  shows "\<exists>w'. spawn_tape env w = Inr w'"
proof -
  have "\<exists>w0. spawn env ''tape0'' xml (tape_coordinates env ! 0) w = Inr w0"
    by (rule spawn_plain_ok [where vx = "9.898041" and vy = "- 8.527939" and vz = 0])
      (simp_all add: tape_coordinates_def)
  then obtain w0 where a: "spawn env ''tape0'' xml (tape_coordinates env ! 0) w = Inr w0" ..
  have "\<exists>w1. spawn env ''tape1'' xml (tape_coordinates env ! Suc 0) w0 = Inr w1"
    by (rule spawn_oriented [OF _ q, where vx = "8.521017" and vy = "- 9.901380" and vz = 0])
      (simp_all add: tape_coordinates_def)
  then obtain w1 where b: "spawn env ''tape1'' xml (tape_coordinates env ! Suc 0) w0 = Inr w1" ..
  show ?thesis
    by (simp add: spawn_tape_def range_2 Let_def str_nat_0 str_nat_1 assms(1) a b)
qed

lemma not_isl_Inr: "isl v = False \<Longrightarrow> \<exists>x. v = Inr x"
  by (cases v) simp_all

lemma cooperativeD:
  assumes "cooperative env"
  obtains xg xt xr xb q90 q180 where
    "read_model env ''grass'' = Inr xg" "read_model env ''tape'' = Inr xt"
    "read_model env ''robot'' = Inr xr" "read_model env ''golfball'' = Inr xb"
    "quaternion_of (euler_to_quaternion env 0 0 (radians env 90)) = Some q90"
    "quaternion_of (euler_to_quaternion env 0 0 (radians env 180)) = Some q180"
proof -
  from assms have "isl (read_model env ''grass'') = False" "isl (read_model env ''tape'') = False"
    "isl (read_model env ''robot'') = False" "isl (read_model env ''golfball'') = False"
    and q: "quaternion_of (euler_to_quaternion env 0 0 (radians env 90)) \<noteq> None"
       "quaternion_of (euler_to_quaternion env 0 0 (radians env 180)) \<noteq> None"
    by (simp_all add: cooperative_def)
  then obtain xg xt xr xb where
    "read_model env ''grass'' = Inr xg" "read_model env ''tape'' = Inr xt"
    "read_model env ''robot'' = Inr xr" "read_model env ''golfball'' = Inr xb"
    by (metis not_isl_Inr)
  moreover from q obtain q90 q180 where
    "quaternion_of (euler_to_quaternion env 0 0 (radians env 90)) = Some q90"
    "quaternion_of (euler_to_quaternion env 0 0 (radians env 180)) = Some q180"
    by auto
  ultimately show ?thesis by (rule that)
qed

lemma create_world_ok:
  assumes "cooperative env"
  shows "\<exists>w'. create_world env w = Some (Inr w')"
proof -
  from assms obtain xg xt xr xb q90 q180 where h:
    "read_model env ''grass'' = Inr xg" "read_model env ''tape'' = Inr xt"
    "read_model env ''robot'' = Inr xr" "read_model env ''golfball'' = Inr xb"
    "quaternion_of (euler_to_quaternion env 0 0 (radians env 90)) = Some q90"
    "quaternion_of (euler_to_quaternion env 0 0 (radians env 180)) = Some q180"
    by (rule cooperativeD)
  from spawn_grass_ok [OF h(1)] obtain w1 where 1: "spawn_grass env w = Inr w1" ..
  from spawn_tape_ok [OF h(2,5)] obtain w2 where 2: "spawn_tape env w1 = Inr w2" ..
  from spawn_robot_ok [OF h(3,6)] obtain w3 where 3: "spawn_robot env w2 = Inr w3" ..
  obtain n g where n: "random_randint env 30 60 (rng w3) = (n, g)"
    by (cases "random_randint env 30 60 (rng w3)")
  from spawn_golfballs_ok [OF h(4) n refl] show ?thesis
    by (simp add: create_world_def 1 2 3)
qed

lemma CreateWorld_init_returns:
  assumes ret: "CreateWorld_init env w = Some (Inr w')"
    and n: "random_randint env 30 60 (rng w) = (n, g)"
    and balls: "balls = drawn_balls env (feet_to_meters env 75) [0..<nat n] g"
  shows "\<exists>k1 evs xml k2.
      map entity_name (spawn_requests evs) = [''grass'', ''tape0'', ''tape1'', ''turtlebot'']
    \<and> send_requests evs = []
    \<and> fst balls \<noteq> []
    \<and> w' = w\<lparr>rng := snd balls,
              golfballs := fst balls,
              trace := trace w
                @ replicate k1 (Log WARN ''Service not available. Waiting...'')
                @ [Log INFO ''world_creator node has started'']
                @ evs @ ball_events env xml (fst balls)
                @ replicate k2 (Log INFO ''Waiting for /golfball_poses service...'')
                @ [Call_SendGolfBallPoses
                     \<lparr>req_golfballs = map fst (fst balls), req_names = map snd (fst balls)\<rparr>,
                   Add_done_callback Publish_golfballs_results]\<rparr>"
proof -
  let ?warn = "emit [Log WARN ''Service not available. Waiting...'']"
  from ret obtain w1 w2 where
    1: "wait_loop (wait_for_service env ''/spawn_entity'') ?warn 0 w = Some w1"
    and 2: "create_world env
              ((emit [Log INFO ''world_creator node has started''] w1)\<lparr>golfballs := []\<rparr>) = Some (Inr w2)"
    and 3: "publish_golfballs env w2 = Some (Inr w')"
    by (auto simp: CreateWorld_init_def Let_def split: option.splits sum.splits)
  from wait_loop_Some [OF 1] obtain k1 where "w1 = (?warn ^^ k1) w" by auto
  then have w1: "w1 = emit (replicate k1 (Log WARN ''Service not available. Waiting...'')) w"
    by (simp add: emit_funpow)
  let ?w = "(emit [Log INFO ''world_creator node has started''] w1)\<lparr>golfballs := []\<rparr>"
  have n': "random_randint env 30 60 (rng ?w) = (n, g)" by (simp add: w1 emit_def n)
  from create_world_returns [OF 2 n' balls] obtain evs xml where
    evs: "map entity_name (spawn_requests evs) = [''grass'', ''tape0'', ''tape1'', ''turtlebot'']"
      "send_requests evs = []"
    and w2: "w2 = ?w\<lparr>rng := snd balls, golfballs := golfballs ?w @ fst balls,
              trace := trace ?w @ evs @ ball_events env xml (fst balls)\<rparr>"
    by (elim exE conjE)
  from publish_golfballs_returns [OF 3] obtain k2 where ne: "golfballs w2 \<noteq> []"
    and w': "w' = emit (replicate k2 (Log INFO ''Waiting for /golfball_poses service...'')
                 @ [Call_SendGolfBallPoses
                      \<lparr>req_golfballs = map fst (golfballs w2), req_names = map snd (golfballs w2)\<rparr>,
                    Add_done_callback Publish_golfballs_results]) w2"
    by blast
  have gs: "golfballs w2 = fst balls" by (simp add: w2)
  have final: "w' = w\<lparr>rng := snd balls,
              golfballs := fst balls,
              trace := trace w
                @ replicate k1 (Log WARN ''Service not available. Waiting...'')
                @ [Log INFO ''world_creator node has started'']
                @ evs @ ball_events env xml (fst balls)
                @ replicate k2 (Log INFO ''Waiting for /golfball_poses service...'')
                @ [Call_SendGolfBallPoses
                     \<lparr>req_golfballs = map fst (fst balls), req_names = map snd (fst balls)\<rparr>,
                   Add_done_callback Publish_golfballs_results]\<rparr>"
    unfolding w' gs by (simp add: w2 w1 emit_def)
  have ne': "fst balls \<noteq> []" using ne gs by simp
  show ?thesis
    by (rule exI [of _ k1], rule exI [of _ evs], rule exI [of _ xml], rule exI [of _ k2])
      (simp only: evs ne' final simp_thms)
qed

lemma CreateWorld_init_ok:
  assumes coop: "cooperative env"
    and s1: "\<exists>k. wait_for_service env ''/spawn_entity'' k"
    and s2: "\<exists>k. wait_for_service env ''/golfball_poses'' k"
    and n: "1 \<le> fst (random_randint env 30 60 (rng w))"
  shows "\<exists>w'. CreateWorld_init env w = Some (Inr w')"
proof -
  let ?warn = "emit [Log WARN ''Service not available. Waiting...'']"
  from wait_loop_available [OF s1, of ?warn w] obtain k1 where
    1: "wait_loop (wait_for_service env ''/spawn_entity'') ?warn 0 w = Some ((?warn ^^ k1) w)"
    by blast
  let ?w = "(emit [Log INFO ''world_creator node has started''] ((?warn ^^ k1) w))\<lparr>golfballs := []\<rparr>"
  from create_world_ok [OF coop, of ?w] obtain w2 where 2: "create_world env ?w = Some (Inr w2)" ..
  obtain m g where m: "random_randint env 30 60 (rng ?w) = (m, g)"
    by (cases "random_randint env 30 60 (rng ?w)")
  have "rng ?w = rng w" by (simp add: emit_funpow emit_def)
  with m n have m1: "1 \<le> m" by simp
  from create_world_returns [OF 2 m refl] obtain evs xml where
    "golfballs w2 = fst (drawn_balls env (feet_to_meters env 75) [0..<nat m] g)"
    by auto
  then have "length (golfballs w2) = nat m" by (simp add: length_drawn_balls)
  with m1 have ne: "golfballs w2 \<noteq> []" by auto
  from s2 obtain k where "wait_for_service env ''/golfball_poses'' k" ..
  define k2 where "k2 = (LEAST k. wait_for_service env ''/golfball_poses'' k)"
  have a: "wait_for_service env ''/golfball_poses'' k2"
    unfolding k2_def using s2 by (metis LeastI)
  have b: "\<forall>j<k2. \<not> wait_for_service env ''/golfball_poses'' j"
    unfolding k2_def using not_less_Least by blast
  from publish_golfballs_ok [OF a b ne] show ?thesis
    by (simp add: CreateWorld_init_def 1 2 Let_def)
qed

section \<open>spawn on a pose without orientation\<close>



text \<open>
  The position fields are read before the \<open>try\<close>: a pose without \<open>'x'\<close> makes \<open>spawn\<close>
  raise \<open>KeyError\<close>, and an orientation that is not a dict raises \<open>TypeError\<close> through the
  handler, which only catches \<open>KeyError\<close>.
\<close>

lemma spawn_raises_without_x:
  "spawn demo_env ''ball0'' ''<sdf>'' [(''y'', Num 0), (''z'', Num 0)] (new_node 0) =
     Inl (KeyError ''x'')"
  by (simp add: spawn_def set_position_def float_item_def subscript_def getitem_def)

lemma spawn_raises_on_scalar_orientation:
  "spawn demo_env ''ball0'' ''<sdf>''
     [(''x'', Num 2), (''y'', Num 0), (''z'', Num 0), (''orientation'', Num 3)] (new_node 0) =
     Inl TypeError"
  by (simp add: spawn_def set_position_def set_orientation_def orientation_block_def
      float_item_def subscript_def getitem_def py_float_def upd_position_def)

section \<open>The placement loop\<close>

text \<open>
  C3. The inner \<open>while True\<close> of \<open>spawn_golfballs\<close> returns after exactly one execution of
  its body, whatever the random module answers: the generator has been asked for exactly
  two numbers, and the candidate made of them is the position the loop leaves in \<open>pose\<close>.
\<close>

theorem placement_loop_runs_once:
  "while_True (draw_candidate env dst) 0 (pose, g) =
     (case random_random env g of (r1, g1) \<Rightarrow>
       (case random_random env g1 of (r2, g2) \<Rightarrow>
          Some (1, setitem ''y'' (Num (r2 * dst - dst / 2))
                     (setitem ''x'' (Num (r1 * dst - dst / 2)) pose), g2)))"
  by (simp add: while_True_draw)

text \<open>With the counter generator at 3, the draws are 0.3 and 0.4 and the side is 10.\<close>

lemma placement_loop_example:
  "while_True (draw_candidate demo_env 10) 0 ([(''z'', Num 0)], 3) =
     Some (1, [(''z'', Num 0), (''x'', Num (- 2)), (''y'', Num (- 1))], 5)"
  by (simp add: while_True.simps draw_candidate_def demo_env_def)

section \<open>The constructor as a whole\<close>

lemma spawn_requests_logs: "spawn_requests (replicate k (Log sev msg)) = []"
  by (induction k) simp_all

lemma send_requests_logs: "send_requests (replicate k (Log sev msg)) = []"
  by (induction k) simp_all

lemma ball_names_fixed:
  "''ball'' @ str_nat i \<notin> {''grass'', ''tape0'', ''tape1'', ''turtlebot''}"
  by simp

lemma distinct_all_names:
  "distinct ([''grass'', ''tape0'', ''tape1'', ''turtlebot''] @ map (\<lambda>i. ''ball'' @ str_nat i) [0..<n])"
  using distinct_ball_names [of n] by (auto simp del: distinct_map)

lemma names_ball_requests:
  "map entity_name (map (ball_request env xml) (fst (drawn_balls env dst is g))) =
     map (\<lambda>i. ''ball'' @ str_nat i) is"
proof -
  have "map entity_name (map (ball_request env xml) (fst (drawn_balls env dst is g))) =
      map snd (fst (drawn_balls env dst is g))"
    by (simp add: comp_def entity_name_ball_request)
  then show ?thesis by (simp only: names_drawn_balls)
qed

lemma CreateWorld_init_trace:
  assumes ret: "CreateWorld_init env w = Some (Inr w')"
  shows "\<exists>pre rq.
      trace w' = trace w @ pre @ [Call_SendGolfBallPoses rq, Add_done_callback Publish_golfballs_results]
    \<and> send_requests pre = []
    \<and> map entity_name (spawn_requests pre) =
         [''grass'', ''tape0'', ''tape1'', ''turtlebot'']
         @ map (\<lambda>i. ''ball'' @ str_nat i) [0..<nat (fst (random_randint env 30 60 (rng w)))]"
proof -
  obtain n g where n: "random_randint env 30 60 (rng w) = (n, g)"
    by (cases "random_randint env 30 60 (rng w)")
  define balls where "balls = drawn_balls env (feet_to_meters env 75) [0..<nat n] g"
  from CreateWorld_init_returns [OF ret n balls_def] obtain k1 evs xml k2 where
    evs: "map entity_name (spawn_requests evs) = [''grass'', ''tape0'', ''tape1'', ''turtlebot'']"
      "send_requests evs = []"
    and w': "w' = w\<lparr>rng := snd balls,
              golfballs := fst balls,
              trace := trace w
                @ replicate k1 (Log WARN ''Service not available. Waiting...'')
                @ [Log INFO ''world_creator node has started'']
                @ evs @ ball_events env xml (fst balls)
                @ replicate k2 (Log INFO ''Waiting for /golfball_poses service...'')
                @ [Call_SendGolfBallPoses
                     \<lparr>req_golfballs = map fst (fst balls), req_names = map snd (fst balls)\<rparr>,
                   Add_done_callback Publish_golfballs_results]\<rparr>"
    by (elim exE conjE)
  define pre where "pre = replicate k1 (Log WARN ''Service not available. Waiting...'')
                @ [Log INFO ''world_creator node has started'']
                @ evs @ ball_events env xml (fst balls)
                @ replicate k2 (Log INFO ''Waiting for /golfball_poses service...'')"
  have 1: "trace w' = trace w @ pre @ [Call_SendGolfBallPoses
                     \<lparr>req_golfballs = map fst (fst balls), req_names = map snd (fst balls)\<rparr>,
                   Add_done_callback Publish_golfballs_results]"
    by (simp add: w' pre_def)
  have 2: "send_requests pre = []"
    by (simp add: pre_def send_requests_append send_requests_logs evs(2) send_requests_ball_events)
  have 3: "map entity_name (spawn_requests pre) =
         [''grass'', ''tape0'', ''tape1'', ''turtlebot'']
         @ map (\<lambda>i. ''ball'' @ str_nat i) [0..<nat (fst (random_randint env 30 60 (rng w)))]"
    by (simp add: pre_def spawn_requests_append spawn_requests_logs evs(1) spawn_requests_ball_events
        balls_def n names_ball_requests del: map_map)
  show ?thesis
    by (rule exI [of _ pre], rule exI) (simp only: 1 2 3 simp_thms)
qed

section \<open>The concrete surroundings behave\<close>

lemma demo_cooperative: "cooperative demo_env"
  by (simp add: cooperative_def demo_env_def read_model_def quaternion_of_def)

lemma demo_services: "wait_for_service demo_env srv 1"
  by (simp add: demo_env_def)

lemma demo_randint: "fst (random_randint demo_env 30 60 g) = 30 + int g mod 31"
  by (simp add: demo_env_def)


lemma demo_golfball_model: "read_model demo_env ''golfball'' = Inr ''<sdf golfball.sdf>''"
  by (simp add: read_model_def demo_env_def)

lemma demo_randint_bounds:
  "30 \<le> fst (random_randint demo_env 30 60 g) \<and> fst (random_randint demo_env 30 60 g) \<le> 60"
proof -
  have "int g mod 31 < 31" by simp
  moreover have "0 \<le> int g mod 31" by simp
  ultimately show ?thesis unfolding demo_randint by linarith
qed

section \<open>All spawns, then one publication\<close>

text \<open>
  C5. Every run of the constructor that returns has sent, before its one
  \<open>SendGolfBallPoses\<close> request and in this order, the spawn requests for the grass, the two
  tape strips, the robot and every golf ball; the publication is the last thing it does.
  And the constructor does return when the surroundings cooperate: the model files are
  readable, the quaternions well formed, both services appear, and \<open>randint\<close> yields at
  least one ball.
\<close>

theorem spawns_before_publication:
  "(\<forall>w'. CreateWorld_init env w = Some (Inr w') \<longrightarrow>
      (\<exists>pre rq.
          trace w' = trace w @ pre
             @ [Call_SendGolfBallPoses rq, Add_done_callback Publish_golfballs_results]
        \<and> send_requests pre = []
        \<and> map entity_name (spawn_requests pre) =
             [''grass'', ''tape0'', ''tape1'', ''turtlebot'']
             @ map (\<lambda>i. ''ball'' @ str_nat i)
                 [0..<nat (fst (random_randint env 30 60 (rng w)))]))
   \<and> (cooperative env
        \<and> (\<exists>k. wait_for_service env ''/spawn_entity'' k)
        \<and> (\<exists>k. wait_for_service env ''/golfball_poses'' k)
        \<and> 1 \<le> fst (random_randint env 30 60 (rng w))
      \<longrightarrow> (\<exists>w'. CreateWorld_init env w = Some (Inr w')))"
  using CreateWorld_init_trace [of env w] CreateWorld_init_ok [of env w] by blast

theorem spawns_before_publication_witness:
  "cooperative demo_env
   \<and> wait_for_service demo_env ''/spawn_entity'' 1
   \<and> wait_for_service demo_env ''/golfball_poses'' 1
   \<and> fst (random_randint demo_env 30 60 (rng (new_node 0))) = 30
   \<and> (\<exists>w' pre rq.
          CreateWorld_init demo_env (new_node 0) = Some (Inr w')
        \<and> trace w' = pre @ [Call_SendGolfBallPoses rq, Add_done_callback Publish_golfballs_results]
        \<and> send_requests pre = []
        \<and> map entity_name (spawn_requests pre) =
             [''grass'', ''tape0'', ''tape1'', ''turtlebot'']
             @ map (\<lambda>i. ''ball'' @ str_nat i) [0..<30])"
proof -
  have n: "fst (random_randint demo_env 30 60 (rng (new_node 0))) = 30"
    by (simp add: demo_randint new_node_def)
  note inst = spawns_before_publication [of demo_env "new_node 0"]
  from inst demo_cooperative demo_services n
  obtain w' where w': "CreateWorld_init demo_env (new_node 0) = Some (Inr w')"
    by (metis one_le_numeral)
  have "\<exists>pre rq.
          trace w' = trace (new_node (0::nat)) @ pre
             @ [Call_SendGolfBallPoses rq, Add_done_callback Publish_golfballs_results]
        \<and> send_requests pre = []
        \<and> map entity_name (spawn_requests pre) =
             [''grass'', ''tape0'', ''tape1'', ''turtlebot'']
             @ map (\<lambda>i. ''ball'' @ str_nat i)
                 [0..<nat (fst (random_randint demo_env 30 60 (rng (new_node 0))))]"
    by (rule inst [THEN conjunct1, rule_format, OF w'])
  then have "\<exists>pre rq.
          trace w' = pre @ [Call_SendGolfBallPoses rq, Add_done_callback Publish_golfballs_results]
        \<and> send_requests pre = []
        \<and> map entity_name (spawn_requests pre) =
             [''grass'', ''tape0'', ''tape1'', ''turtlebot'']
             @ map (\<lambda>i. ''ball'' @ str_nat i) [0..<30]"
    by (simp add: n) (simp add: new_node_def)
  with w' demo_cooperative demo_services [of "''/spawn_entity''"]
    demo_services [of "''/golfball_poses''"] n
  show ?thesis by blast
qed

section \<open>Entity names\<close>

lemma CreateWorld_init_names:
  assumes "CreateWorld_init env (new_node g) = Some (Inr w')"
  shows "map entity_name (spawn_requests (trace w')) =
      [''grass'', ''tape0'', ''tape1'', ''turtlebot'']
      @ map (\<lambda>i. ''ball'' @ str_nat i) [0..<nat (fst (random_randint env 30 60 g))]"
proof -
  from CreateWorld_init_trace [OF assms] obtain pre rq where
    1: "trace w' = trace (new_node g) @ pre
          @ [Call_SendGolfBallPoses rq, Add_done_callback Publish_golfballs_results]"
    and 2: "map entity_name (spawn_requests pre) =
         [''grass'', ''tape0'', ''tape1'', ''turtlebot'']
         @ map (\<lambda>i. ''ball'' @ str_nat i) [0..<nat (fst (random_randint env 30 60 (rng (new_node g))))]"
    by (elim exE conjE)
  have "spawn_requests (trace w') = spawn_requests pre"
    by (simp add: 1 new_node_def spawn_requests_append)
  with 2 show ?thesis by (simp add: new_node_def)
qed

text \<open>
  C10. In every run of the constructor that returns, the spawn requests carry, in order,
  the names \<open>grass\<close>, \<open>tape0\<close>, \<open>tape1\<close>, \<open>turtlebot\<close>, \<open>ball0\<close>, ..., and no two of
  them are equal. Such runs exist whenever the surroundings cooperate.
\<close>

theorem entity_names_distinct:
  "(\<forall>w'. CreateWorld_init env (new_node g) = Some (Inr w') \<longrightarrow>
       map entity_name (spawn_requests (trace w')) =
         [''grass'', ''tape0'', ''tape1'', ''turtlebot'']
         @ map (\<lambda>i. ''ball'' @ str_nat i) [0..<nat (fst (random_randint env 30 60 g))]
     \<and> distinct (map entity_name (spawn_requests (trace w'))))
   \<and> (cooperative env
        \<and> (\<exists>k. wait_for_service env ''/spawn_entity'' k)
        \<and> (\<exists>k. wait_for_service env ''/golfball_poses'' k)
        \<and> 1 \<le> fst (random_randint env 30 60 g)
      \<longrightarrow> (\<exists>w'. CreateWorld_init env (new_node g) = Some (Inr w')))"
proof (intro conjI allI impI)
  fix w' assume ret: "CreateWorld_init env (new_node g) = Some (Inr w')"
  show names: "map entity_name (spawn_requests (trace w')) =
         [''grass'', ''tape0'', ''tape1'', ''turtlebot'']
         @ map (\<lambda>i. ''ball'' @ str_nat i) [0..<nat (fst (random_randint env 30 60 g))]"
    by (rule CreateWorld_init_names [OF ret])
  show "distinct (map entity_name (spawn_requests (trace w')))"
    unfolding names by (rule distinct_all_names)
next
  assume "cooperative env
        \<and> (\<exists>k. wait_for_service env ''/spawn_entity'' k)
        \<and> (\<exists>k. wait_for_service env ''/golfball_poses'' k)
        \<and> 1 \<le> fst (random_randint env 30 60 g)"
  then show "\<exists>w'. CreateWorld_init env (new_node g) = Some (Inr w')"
    using CreateWorld_init_ok [of env "new_node g"] by (simp add: new_node_def)
qed

theorem entity_names_distinct_witness:
  "cooperative demo_env
   \<and> wait_for_service demo_env ''/spawn_entity'' 1
   \<and> wait_for_service demo_env ''/golfball_poses'' 1
   \<and> fst (random_randint demo_env 30 60 (0::nat)) = 30
   \<and> (\<exists>w'. CreateWorld_init demo_env (new_node 0) = Some (Inr w')
        \<and> length (spawn_requests (trace w')) = 34
        \<and> distinct (map entity_name (spawn_requests (trace w'))))"
proof -
  have n: "fst (random_randint demo_env 30 60 (0::nat)) = 30"
    by (simp add: demo_randint)
  note inst = entity_names_distinct [of demo_env 0]
  from inst demo_cooperative demo_services n
  obtain w' where w': "CreateWorld_init demo_env (new_node 0) = Some (Inr w')"
    by (metis one_le_numeral)
  have names: "map entity_name (spawn_requests (trace w')) =
         [''grass'', ''tape0'', ''tape1'', ''turtlebot'']
         @ map (\<lambda>i. ''ball'' @ str_nat i) [0..<nat (fst (random_randint demo_env 30 60 0))]"
    by (rule inst [THEN conjunct1, rule_format, OF w', THEN conjunct1])
  have d: "distinct (map entity_name (spawn_requests (trace w')))"
    by (rule inst [THEN conjunct1, rule_format, OF w', THEN conjunct2])
  have "length (map entity_name (spawn_requests (trace w'))) = 34"
    unfolding names n by simp
  then have "length (spawn_requests (trace w')) = 34" by simp
  with w' d demo_cooperative demo_services [of "''/spawn_entity''"]
    demo_services [of "''/golfball_poses''"] n
  show ?thesis by blast
qed

section \<open>How many balls\<close>

text \<open>
  C8. If \<open>random.randint(30, 60)\<close> keeps to its bounds, \<open>spawn_golfballs\<close> never hangs,
  and whenever it returns it has appended between 30 and 60 entries to
  \<open>self.golfballs\<close>, so that the list is not empty and \<open>zip(*self.golfballs)\<close> unpacks
  into the two sequences. It returns whenever the golf-ball model can be read.
\<close>

theorem golfball_count:
  assumes rand: "\<forall>g. 30 \<le> fst (random_randint env 30 60 g) \<and> fst (random_randint env 30 60 g) \<le> 60"
  shows "spawn_golfballs env w \<noteq> None
    \<and> (\<forall>w'. spawn_golfballs env w = Some (Inr w') \<longrightarrow>
         (\<exists>balls. golfballs w' = golfballs w @ balls
            \<and> 30 \<le> length balls \<and> length balls \<le> 60
            \<and> golfballs w' \<noteq> []
            \<and> zip_star (golfballs w') = Inr (map fst (golfballs w'), map snd (golfballs w'))))
    \<and> (\<forall>xml. read_model env ''golfball'' = Inr xml \<longrightarrow>
         (\<exists>w'. spawn_golfballs env w = Some (Inr w')))"
proof (intro conjI allI impI)
  show "spawn_golfballs env w \<noteq> None" by (rule spawn_golfballs_terminates)
next
  fix w' assume ret: "spawn_golfballs env w = Some (Inr w')"
  obtain n g where n: "random_randint env 30 60 (rng w) = (n, g)"
    by (cases "random_randint env 30 60 (rng w)")
  define balls where "balls = drawn_balls env (feet_to_meters env 75) [0..<nat n] g"
  from spawn_golfballs_returns [OF ret n balls_def] obtain xml where
    w': "w' = w\<lparr>rng := snd balls, golfballs := golfballs w @ fst balls,
                 trace := trace w @ ball_events env xml (fst balls)\<rparr>" ..
  have len: "length (fst balls) = nat n" by (simp add: balls_def length_drawn_balls)
  from rand [rule_format, of "rng w"] n have "30 \<le> n" "n \<le> 60" by simp_all
  with len have b: "30 \<le> length (fst balls)" "length (fst balls) \<le> 60" by simp_all
  then have ne: "fst balls \<noteq> []" by auto
  have gs: "golfballs w' = golfballs w @ fst balls" by (simp add: w')
  have "golfballs w' \<noteq> []" using ne gs by simp
  then have "zip_star (golfballs w') = Inr (map fst (golfballs w'), map snd (golfballs w'))"
    by (simp add: zip_star_def)
  with gs b \<open>golfballs w' \<noteq> []\<close>
  show "\<exists>balls. golfballs w' = golfballs w @ balls
            \<and> 30 \<le> length balls \<and> length balls \<le> 60
            \<and> golfballs w' \<noteq> []
            \<and> zip_star (golfballs w') = Inr (map fst (golfballs w'), map snd (golfballs w'))"
    by (intro exI [of _ "fst balls"]) simp
next
  fix xml assume model: "read_model env ''golfball'' = Inr xml"
  obtain n g where n: "random_randint env 30 60 (rng w) = (n, g)"
    by (cases "random_randint env 30 60 (rng w)")
  from spawn_golfballs_ok [OF model n refl]
  show "\<exists>w'. spawn_golfballs env w = Some (Inr w')" by simp
qed

theorem golfball_count_witness:
  "(\<forall>g. 30 \<le> fst (random_randint demo_env 30 60 g) \<and> fst (random_randint demo_env 30 60 g) \<le> 60)
   \<and> read_model demo_env ''golfball'' = Inr ''<sdf golfball.sdf>''
   \<and> (\<exists>w'. spawn_golfballs demo_env (new_node 0) = Some (Inr w')
        \<and> 30 \<le> length (golfballs w') \<and> length (golfballs w') \<le> 60
        \<and> zip_star (golfballs w') = Inr (map fst (golfballs w'), map snd (golfballs w')))"
proof -
  have rand: "\<forall>g. 30 \<le> fst (random_randint demo_env 30 60 g)
                \<and> fst (random_randint demo_env 30 60 g) \<le> 60"
    using demo_randint_bounds by blast
  note inst = golfball_count [OF rand, of "new_node 0"]
  from inst [THEN conjunct2, THEN conjunct2, rule_format, OF demo_golfball_model]
  obtain w' where w': "spawn_golfballs demo_env (new_node 0) = Some (Inr w')" ..
  from inst [THEN conjunct2, THEN conjunct1, rule_format, OF w']
  obtain balls where "golfballs w' = golfballs (new_node (0::nat)) @ balls"
    "30 \<le> length balls" "length balls \<le> 60"
    "zip_star (golfballs w') = Inr (map fst (golfballs w'), map snd (golfballs w'))"
    by (elim exE conjE)
  then have "30 \<le> length (golfballs w')" "length (golfballs w') \<le> 60"
    "zip_star (golfballs w') = Inr (map fst (golfballs w'), map snd (golfballs w'))"
    by (simp_all add: new_node_def)
  with rand demo_golfball_model w' show ?thesis by blast
qed

section \<open>Where the balls lie\<close>






section \<open>The published request\<close>

lemma zip_map_fst_snd: "zip (map fst xs) (map snd xs) = xs"
  by (induction xs) simp_all

lemma send_requests_publication:
  "send_requests (replicate k (Log sev msg) @ [Call_SendGolfBallPoses rq, Add_done_callback cb]) = [rq]"
  by (simp add: send_requests_append send_requests_logs)

text \<open>
  C1. When \<open>spawn_golfballs\<close> has returned and \<open>publish_golfballs\<close> then returns, the events
  of \<open>publish_golfballs\<close> contain exactly one \<open>SendGolfBallPoses\<close> request; its
  \<open>golfballs\<close> are the points and its \<open>names\<close> the names of \<open>self.golfballs\<close>, in the same
  order, so that zipping the two fields gives \<open>self.golfballs\<close> back, which ends with the
  entries \<open>spawn_golfballs\<close> appended. Both return when \<open>randint\<close> keeps to its bounds, the
  golf-ball model is readable and the service appears.
\<close>

theorem published_request_matches_golfballs:
  "(\<forall>w1 w2. spawn_golfballs env w = Some (Inr w1) \<longrightarrow>
            publish_golfballs env w1 = Some (Inr w2) \<longrightarrow>
      (\<exists>balls evs rq.
          golfballs w1 = golfballs w @ balls
        \<and> trace w2 = trace w1 @ evs
        \<and> send_requests evs = [rq]
        \<and> req_golfballs rq = map fst (golfballs w1)
        \<and> req_names rq = map snd (golfballs w1)
        \<and> zip (req_golfballs rq) (req_names rq) = golfballs w1))
   \<and> ((\<forall>g. 30 \<le> fst (random_randint env 30 60 g) \<and> fst (random_randint env 30 60 g) \<le> 60)
        \<and> (\<exists>xml. read_model env ''golfball'' = Inr xml)
        \<and> (\<exists>k. wait_for_service env ''/golfball_poses'' k)
      \<longrightarrow> (\<exists>w1 w2. spawn_golfballs env w = Some (Inr w1)
                   \<and> publish_golfballs env w1 = Some (Inr w2)))"
proof (intro conjI allI impI)
  fix w1 w2
  assume ret: "spawn_golfballs env w = Some (Inr w1)"
    and pub: "publish_golfballs env w1 = Some (Inr w2)"
  obtain n g where n: "random_randint env 30 60 (rng w) = (n, g)"
    by (cases "random_randint env 30 60 (rng w)")
  from spawn_golfballs_returns [OF ret n refl] obtain xml where
    "w1 = w\<lparr>rng := snd (drawn_balls env (feet_to_meters env 75) [0..<nat n] g),
            golfballs := golfballs w @ fst (drawn_balls env (feet_to_meters env 75) [0..<nat n] g),
            trace := trace w @ ball_events env xml
                       (fst (drawn_balls env (feet_to_meters env 75) [0..<nat n] g))\<rparr>" ..
  then have 1: "golfballs w1 =
      golfballs w @ fst (drawn_balls env (feet_to_meters env 75) [0..<nat n] g)" by simp
  define rq where
    "rq = \<lparr>req_golfballs = map fst (golfballs w1), req_names = map snd (golfballs w1)\<rparr>"
  from publish_golfballs_returns [OF pub] obtain k where
    "w2 = emit (replicate k (Log INFO ''Waiting for /golfball_poses service...'')
                 @ [Call_SendGolfBallPoses rq, Add_done_callback Publish_golfballs_results]) w1"
    unfolding rq_def by (elim exE conjE)
  then have 2: "trace w2 = trace w1 @ (replicate k (Log INFO ''Waiting for /golfball_poses service...'')
                 @ [Call_SendGolfBallPoses rq, Add_done_callback Publish_golfballs_results])"
    by (simp add: emit_def)
  have 3: "send_requests (replicate k (Log INFO ''Waiting for /golfball_poses service...'')
                 @ [Call_SendGolfBallPoses rq, Add_done_callback Publish_golfballs_results]) = [rq]"
    by (rule send_requests_publication)
  have 4: "req_golfballs rq = map fst (golfballs w1)" and 5: "req_names rq = map snd (golfballs w1)"
    by (simp_all add: rq_def)
  have 6: "zip (req_golfballs rq) (req_names rq) = golfballs w1"
    unfolding 4 5 by (rule zip_map_fst_snd)
  show "\<exists>balls evs rq.
          golfballs w1 = golfballs w @ balls
        \<and> trace w2 = trace w1 @ evs
        \<and> send_requests evs = [rq]
        \<and> req_golfballs rq = map fst (golfballs w1)
        \<and> req_names rq = map snd (golfballs w1)
        \<and> zip (req_golfballs rq) (req_names rq) = golfballs w1"
    by (rule exI, rule exI, rule exI [of _ rq], intro conjI, rule 1, rule 2, rule 3, rule 4,
        rule 5, rule 6)
next
  assume h: "(\<forall>g. 30 \<le> fst (random_randint env 30 60 g) \<and> fst (random_randint env 30 60 g) \<le> 60)
        \<and> (\<exists>xml. read_model env ''golfball'' = Inr xml)
        \<and> (\<exists>k. wait_for_service env ''/golfball_poses'' k)"
  from h [THEN conjunct2, THEN conjunct1]
  obtain xml where model: "read_model env ''golfball'' = Inr xml" ..
  obtain n g where n: "random_randint env 30 60 (rng w) = (n, g)"
    by (cases "random_randint env 30 60 (rng w)")
  from h [THEN conjunct1, rule_format, of "rng w"] n have n30: "30 \<le> n" by simp
  define balls where "balls = drawn_balls env (feet_to_meters env 75) [0..<nat n] g"
  define w1 where "w1 = w\<lparr>rng := snd balls, golfballs := golfballs w @ fst balls,
                 trace := trace w @ ball_events env xml (fst balls)\<rparr>"
  have ret: "spawn_golfballs env w = Some (Inr w1)"
    unfolding w1_def by (rule spawn_golfballs_ok [OF model n balls_def])
  have "length (fst balls) = nat n" by (simp add: balls_def length_drawn_balls)
  with n30 have "fst balls \<noteq> []" by auto
  then have ne: "golfballs w1 \<noteq> []" by (simp add: w1_def)
  from wait_loop_available [OF h [THEN conjunct2, THEN conjunct2], of id "0::nat"] obtain k where
    a: "wait_for_service env ''/golfball_poses'' k"
    and b: "\<forall>j<k. \<not> wait_for_service env ''/golfball_poses'' j" by (elim exE conjE)
  show "\<exists>w1 w2. spawn_golfballs env w = Some (Inr w1)
                   \<and> publish_golfballs env w1 = Some (Inr w2)"
    by (rule exI [of _ w1], rule exI, rule conjI, rule ret, rule publish_golfballs_ok [OF a b ne])
qed

theorem published_request_matches_golfballs_witness:
  "(\<forall>g. 30 \<le> fst (random_randint demo_env 30 60 g) \<and> fst (random_randint demo_env 30 60 g) \<le> 60)
   \<and> read_model demo_env ''golfball'' = Inr ''<sdf golfball.sdf>''
   \<and> wait_for_service demo_env ''/golfball_poses'' 1
   \<and> (\<exists>w1 w2 evs rq.
          spawn_golfballs demo_env (new_node 0) = Some (Inr w1)
        \<and> publish_golfballs demo_env w1 = Some (Inr w2)
        \<and> trace w2 = trace w1 @ evs
        \<and> send_requests evs = [rq]
        \<and> zip (req_golfballs rq) (req_names rq) = golfballs w1)"
proof -
  have rand: "\<forall>g. 30 \<le> fst (random_randint demo_env 30 60 g)
                \<and> fst (random_randint demo_env 30 60 g) \<le> 60"
    using demo_randint_bounds by blast
  note inst = published_request_matches_golfballs [of demo_env "new_node 0"]
  have "\<exists>w1 w2. spawn_golfballs demo_env (new_node 0) = Some (Inr w1)
                   \<and> publish_golfballs demo_env w1 = Some (Inr w2)"
    using rand demo_golfball_model demo_services [of "''/golfball_poses''"]
    by (intro inst [THEN conjunct2, rule_format]) blast
  then obtain w1 w2 where r: "spawn_golfballs demo_env (new_node 0) = Some (Inr w1)"
    "publish_golfballs demo_env w1 = Some (Inr w2)" by blast
  from inst [THEN conjunct1, rule_format, OF r]
  obtain evs rq where "trace w2 = trace w1 @ evs" "send_requests evs = [rq]"
    "zip (req_golfballs rq) (req_names rq) = golfballs w1"
    by (elim exE conjE)
  with r rand demo_golfball_model demo_services [of "''/golfball_poses''"]
  show ?thesis by blast
qed

section \<open>The addition client: the polling loop\<close>

lemma client_emit_funpow: "(client_emit [e] ^^ k) c = client_emit (replicate k e) c"
  by (induction k arbitrary: c) (simp_all add: client_emit_def replicate_append_same)

lemma client_emit_emit: "client_emit es (client_emit ds c) = client_emit (ds @ es) c"
  by (simp add: client_emit_def)



lemma poll_loop_Some:
  assumes "poll_loop env i c = Some c'"
  shows "\<exists>k. (\<forall>j<k. rclpy_ok env (i + j) \<and> \<not> future_done env (i + j))
     \<and> (rclpy_ok env (i + k) \<and> future_done env (i + k)
           \<and> c' = process_result env (client_emit (replicate (Suc k) Spin_once) c)
         \<or> \<not> rclpy_ok env (i + k) \<and> c' = client_emit (replicate k Spin_once) c)"
proof (rule poll_loop.raw_induct [OF _ assms])
  fix loop :: "client_env \<Rightarrow> nat \<Rightarrow> minimal_client \<Rightarrow> minimal_client option"
  fix env i c c'
  assume IH: "\<And>env i c c'. loop env i c = Some c' \<Longrightarrow>
    \<exists>k. (\<forall>j<k. rclpy_ok env (i + j) \<and> \<not> future_done env (i + j))
     \<and> (rclpy_ok env (i + k) \<and> future_done env (i + k)
           \<and> c' = process_result env (client_emit (replicate (Suc k) Spin_once) c)
         \<or> \<not> rclpy_ok env (i + k) \<and> c' = client_emit (replicate k Spin_once) c)"
  assume body: "(if \<not> rclpy_ok env i then Some c
     else (let c = client_emit [Spin_once] c in
           if future_done env i then Some (process_result env c)
           else loop env (Suc i) c)) = Some c'"
  let ?goal = "\<exists>k. (\<forall>j<k. rclpy_ok env (i + j) \<and> \<not> future_done env (i + j))
     \<and> (rclpy_ok env (i + k) \<and> future_done env (i + k)
           \<and> c' = process_result env (client_emit (replicate (Suc k) Spin_once) c)
         \<or> \<not> rclpy_ok env (i + k) \<and> c' = client_emit (replicate k Spin_once) c)"
  show ?goal
  proof (cases "rclpy_ok env i")
    case False
    with body have "c' = c" by simp
    with False show ?thesis by (intro exI [of _ 0]) (simp add: client_emit_def)
  next
    case ok: True
    show ?thesis
    proof (cases "future_done env i")
      case True
      with ok body have "c' = process_result env (client_emit [Spin_once] c)"
        by (simp add: Let_def)
      with ok True show ?thesis by (intro exI [of _ 0]) simp
    next
      case False
      with ok body have "loop env (Suc i) (client_emit [Spin_once] c) = Some c'"
        by (simp add: Let_def)
      from IH [OF this] obtain k where
        k: "\<forall>j<k. rclpy_ok env (Suc i + j) \<and> \<not> future_done env (Suc i + j)"
        and r: "rclpy_ok env (Suc i + k) \<and> future_done env (Suc i + k)
           \<and> c' = process_result env
                  (client_emit (replicate (Suc k) Spin_once) (client_emit [Spin_once] c))
         \<or> \<not> rclpy_ok env (Suc i + k)
           \<and> c' = client_emit (replicate k Spin_once) (client_emit [Spin_once] c)"
        by (elim exE conjE)
      have all: "\<forall>j<Suc k. rclpy_ok env (i + j) \<and> \<not> future_done env (i + j)"
      proof (intro allI impI)
        fix j assume "j < Suc k"
        then show "rclpy_ok env (i + j) \<and> \<not> future_done env (i + j)"
          using ok False k by (cases j) simp_all
      qed
      from r have "rclpy_ok env (i + Suc k) \<and> future_done env (i + Suc k)
           \<and> c' = process_result env (client_emit (replicate (Suc (Suc k)) Spin_once) c)
         \<or> \<not> rclpy_ok env (i + Suc k) \<and> c' = client_emit (replicate (Suc k) Spin_once) c"
        by (simp add: client_emit_emit)
      with all show ?thesis by (intro exI [of _ "Suc k"]) (rule conjI)
    qed
  qed
qed

lemma calls_append: "calls (xs @ ys) = calls xs @ calls ys"
  by (induction xs rule: calls.induct) simp_all

lemma calls_logs: "calls (replicate k (Client_log msg)) = []"
  by (induction k) simp_all

lemma calls_spins: "calls (replicate k Spin_once) = []"
  by (induction k) simp_all

lemma count_logs: "count_list (replicate k (Client_log msg)) Future_result = 0"
  by (induction k) simp_all

lemma count_spins: "count_list (replicate k Spin_once) Future_result = 0"
  by (induction k) simp_all

lemma count_list_append: "count_list (xs @ ys) x = count_list xs x + count_list ys x"
  by (induction xs) simp_all


lemma send_request_Inr:
  assumes "send_request env c = Inr c'"
  shows "2 < length (argv env)
    \<and> py_int env (argv env ! 1) = Inr (req_a (req c'))
    \<and> py_int env (argv env ! 2) = Inr (req_b (req c'))
    \<and> req c' = (req c)\<lparr>req_a := req_a (req c'), req_b := req_b (req c')\<rparr>
    \<and> events c' = events c @ [Call_AddTwoInts (req c')]
    \<and> future c' = Some (req c')"
  using assms
  by (auto simp: send_request_def list_index_def client_emit_def Let_def
      split: if_splits sum.splits)

lemma process_result_events:
  "events (process_result env c) = events c @
     [Future_result,
      Client_log (case future_outcome env of
         Inl e \<Rightarrow> ''Service call failed ('' @ exc_repr e @ '',)''
       | Inr response \<Rightarrow> ''Result of add_two_ints: for '' @ str_int (req_a (req c)) @ '' + ''
              @ str_int (req_b (req c)) @ '' = '' @ str_int (resp_sum response))]"
  by (simp add: process_result_def client_emit_def Let_def split: sum.splits)

lemma process_result_req: "req (process_result env c) = req c"
  by (simp add: process_result_def client_emit_def Let_def split: sum.splits)

lemma main_returns:
  assumes "main env = Some (Inr c')"
  shows "\<exists>waits k.
      2 < length (argv env)
    \<and> py_int env (argv env ! 1) = Inr (req_a (req c'))
    \<and> py_int env (argv env ! 2) = Inr (req_b (req c'))
    \<and> service_ready env waits
    \<and> (\<forall>j<k. rclpy_ok env j \<and> \<not> future_done env j)
    \<and> (rclpy_ok env k \<and> future_done env k
          \<and> events c' =
               [Rclpy_init]
               @ replicate waits (Client_log ''service not available, waiting again...'')
               @ [Call_AddTwoInts (req c')]
               @ replicate (Suc k) Spin_once
               @ [Future_result,
                  Client_log (case future_outcome env of
                     Inl e \<Rightarrow> ''Service call failed ('' @ exc_repr e @ '',)''
                   | Inr response \<Rightarrow>
                       ''Result of add_two_ints: for '' @ str_int (req_a (req c')) @ '' + ''
                         @ str_int (req_b (req c')) @ '' = '' @ str_int (resp_sum response))]
               @ [Destroy_node, Rclpy_shutdown]
        \<or> \<not> rclpy_ok env k
          \<and> events c' =
               [Rclpy_init]
               @ replicate waits (Client_log ''service not available, waiting again...'')
               @ [Call_AddTwoInts (req c')]
               @ replicate k Spin_once
               @ [Destroy_node, Rclpy_shutdown])"
proof -
  let ?wait = "client_emit [Client_log ''service not available, waiting again...'']"
  let ?c0 = "client_emit [Rclpy_init] (fresh_client env)"
  from assms obtain c1 c2 c3 where
    1: "wait_loop (service_ready env) ?wait 0 ?c0 = Some c1"
    and 2: "send_request env (c1\<lparr>req := AddTwoInts_Request env\<rparr>) = Inr c2"
    and 3: "poll_loop env 0 c2 = Some c3"
    and c': "c' = client_emit [Destroy_node, Rclpy_shutdown] c3"
    by (auto simp: main_def MinimalClientAsync_init_def Let_def split: option.splits sum.splits)
  from wait_loop_Some [OF 1] obtain waits where
    w: "service_ready env waits" and c1: "c1 = (?wait ^^ waits) ?c0" by auto
  have e1: "events (c1\<lparr>req := AddTwoInts_Request env\<rparr>) =
      [Rclpy_init] @ replicate waits (Client_log ''service not available, waiting again...'')"
    by (simp add: c1 client_emit_funpow client_emit_def fresh_client_def)
  from send_request_Inr [OF 2] have
    a: "2 < length (argv env)"
    and b: "py_int env (argv env ! 1) = Inr (req_a (req c2))"
           "py_int env (argv env ! 2) = Inr (req_b (req c2))"
    and e2: "events c2 = events (c1\<lparr>req := AddTwoInts_Request env\<rparr>) @ [Call_AddTwoInts (req c2)]"
    by simp_all
  from poll_loop_Some [OF 3] obtain k where
    k: "\<forall>j<k. rclpy_ok env j \<and> \<not> future_done env j"
    and r: "rclpy_ok env k \<and> future_done env k
           \<and> c3 = process_result env (client_emit (replicate (Suc k) Spin_once) c2)
         \<or> \<not> rclpy_ok env k \<and> c3 = client_emit (replicate k Spin_once) c2"
    by auto
  have rq: "req c' = req c2"
    using r by (auto simp: c' client_emit_def process_result_req)
  from r have "rclpy_ok env k \<and> future_done env k
          \<and> events c' =
               [Rclpy_init]
               @ replicate waits (Client_log ''service not available, waiting again...'')
               @ [Call_AddTwoInts (req c')]
               @ replicate (Suc k) Spin_once
               @ [Future_result,
                  Client_log (case future_outcome env of
                     Inl e \<Rightarrow> ''Service call failed ('' @ exc_repr e @ '',)''
                   | Inr response \<Rightarrow>
                       ''Result of add_two_ints: for '' @ str_int (req_a (req c')) @ '' + ''
                         @ str_int (req_b (req c')) @ '' = '' @ str_int (resp_sum response))]
               @ [Destroy_node, Rclpy_shutdown]
        \<or> \<not> rclpy_ok env k
          \<and> events c' =
               [Rclpy_init]
               @ replicate waits (Client_log ''service not available, waiting again...'')
               @ [Call_AddTwoInts (req c')]
               @ replicate k Spin_once
               @ [Destroy_node, Rclpy_shutdown]"
  proof (elim disjE conjE)
    assume "rclpy_ok env k" "future_done env k"
      and c3: "c3 = process_result env (client_emit (replicate (Suc k) Spin_once) c2)"
    have "events c' = events c2 @ replicate (Suc k) Spin_once
         @ [Future_result,
            Client_log (case future_outcome env of
                     Inl e \<Rightarrow> ''Service call failed ('' @ exc_repr e @ '',)''
                   | Inr response \<Rightarrow>
                       ''Result of add_two_ints: for '' @ str_int (req_a (req c2)) @ '' + ''
                         @ str_int (req_b (req c2)) @ '' = '' @ str_int (resp_sum response))]
         @ [Destroy_node, Rclpy_shutdown]"
      unfolding c' c3
      by (simp add: client_emit_def process_result_events del: replicate.simps split: sum.splits)
    with \<open>rclpy_ok env k\<close> \<open>future_done env k\<close> show ?thesis
      unfolding rq by (simp add: e2 e1 del: replicate.simps)
  next
    assume "\<not> rclpy_ok env k" and c3: "c3 = client_emit (replicate k Spin_once) c2"
    have "events c' = events c2 @ replicate k Spin_once @ [Destroy_node, Rclpy_shutdown]"
      unfolding c' c3 by (simp add: client_emit_def)
    with \<open>\<not> rclpy_ok env k\<close> show ?thesis unfolding rq by (simp add: e2 e1)
  qed
  with a b w k show ?thesis
    unfolding rq by (intro exI [of _ waits] exI [of _ k]) (intro conjI; assumption)
qed


section \<open>Runs of the client, evaluated\<close>


lemma demo_run:
  "main demo_client_env =
     Some (Inr \<lparr>req = \<lparr>req_a = 2, req_b = 3\<rparr>,
               future = Some \<lparr>req_a = 2, req_b = 3\<rparr>,
               events = [Rclpy_init,
                         Client_log ''service not available, waiting again...'',
                         Call_AddTwoInts \<lparr>req_a = 2, req_b = 3\<rparr>,
                         Spin_once, Spin_once, Spin_once,
                         Future_result,
                         Client_log ''Result of add_two_ints: for 2 + 3 = 5'',
                         Destroy_node, Rclpy_shutdown]\<rparr>)"
  by (simp add: main_def MinimalClientAsync_init_def send_request_def list_index_def
      demo_client_env_def fresh_client_def client_emit_def process_result_def
      wait_loop.simps poll_loop.simps Let_def str_int_def str_nat.simps digit_char_def)

lemma failing_run:
  "main (demo_client_env
           \<lparr>future_outcome := Inl \<lparr>exc_str = ''timed out'', exc_repr = ''TimeoutError()''\<rparr>\<rparr>) =
     Some (Inr \<lparr>req = \<lparr>req_a = 2, req_b = 3\<rparr>,
               future = Some \<lparr>req_a = 2, req_b = 3\<rparr>,
               events = [Rclpy_init,
                         Client_log ''service not available, waiting again...'',
                         Call_AddTwoInts \<lparr>req_a = 2, req_b = 3\<rparr>,
                         Spin_once, Spin_once, Spin_once,
                         Future_result,
                         Client_log ''Service call failed (TimeoutError(),)'',
                         Destroy_node, Rclpy_shutdown]\<rparr>)"
  by (simp add: main_def MinimalClientAsync_init_def send_request_def list_index_def
      demo_client_env_def fresh_client_def client_emit_def process_result_def
      wait_loop.simps poll_loop.simps Let_def)

lemma main_calls:
  assumes "main env = Some (Inr c')"
  shows "calls (events c') = [req c']" and "count_list (events c') Future_result \<le> 1"
proof -
  from main_returns [OF assms] obtain waits k msg where
    "rclpy_ok env k \<and> future_done env k
          \<and> events c' =
               [Rclpy_init]
               @ replicate waits (Client_log ''service not available, waiting again...'')
               @ [Call_AddTwoInts (req c')]
               @ replicate (Suc k) Spin_once
               @ [Future_result, Client_log msg]
               @ [Destroy_node, Rclpy_shutdown]
        \<or> \<not> rclpy_ok env k
          \<and> events c' =
               [Rclpy_init]
               @ replicate waits (Client_log ''service not available, waiting again...'')
               @ [Call_AddTwoInts (req c')]
               @ replicate k Spin_once
               @ [Destroy_node, Rclpy_shutdown]"
    by (elim exE conjE) blast
  then have "calls (events c') = [req c'] \<and> count_list (events c') Future_result \<le> 1"
    by (elim disjE conjE)
      (simp_all add: calls_append calls_logs calls_spins count_list_append count_logs count_spins
        del: replicate.simps)
  then show "calls (events c') = [req c']" and "count_list (events c') Future_result \<le> 1"
    by simp_all
qed

lemma poll_loop_now:
  assumes "rclpy_ok env i" and "future_done env i"
  shows "poll_loop env i c = Some (process_result env (client_emit [Spin_once] c))"
  using assms by (subst poll_loop.simps) (simp add: Let_def)

lemma process_result_raises:
  "process_result (cenv\<lparr>future_outcome := Inl e\<rparr>) c =
      client_emit [Future_result, Client_log (''Service call failed ('' @ exc_repr e @ '',)'')] c"
  by (simp add: process_result_def client_emit_def)

lemma poll_loop_raises:
  assumes "rclpy_ok cenv i" "future_done cenv i"
  shows "poll_loop (cenv\<lparr>future_outcome := Inl e\<rparr>) i c =
          Some (client_emit
                 [Spin_once, Future_result,
                  Client_log (''Service call failed ('' @ exc_repr e @ '',)'')] c)"
proof -
  from assms have ok: "rclpy_ok (cenv\<lparr>future_outcome := Inl e\<rparr>) i"
      "future_done (cenv\<lparr>future_outcome := Inl e\<rparr>) i" by simp_all
  show ?thesis
    by (simp only: poll_loop_now [OF ok] process_result_raises client_emit_emit append_Cons append_Nil)
qed

lemma main_failure_tail:
  assumes ret: "main (cenv\<lparr>future_outcome := Inl e\<rparr>) = Some (Inr c')"
    and one: "count_list (events c') Future_result = 1"
  shows "\<exists>before. events c' =
                before @ [Future_result,
                          Client_log (''Service call failed ('' @ exc_repr e @ '',)''),
                          Destroy_node, Rclpy_shutdown]"
proof -
  let ?env = "cenv\<lparr>future_outcome := Inl e\<rparr>"
  from main_returns [OF ret] obtain waits k where
    "2 < length (argv ?env)"
    "py_int ?env (argv ?env ! 1) = Inr (req_a (req c'))"
    "py_int ?env (argv ?env ! 2) = Inr (req_b (req c'))"
    "service_ready ?env waits"
    "\<forall>j<k. rclpy_ok ?env j \<and> \<not> future_done ?env j"
    and r: "rclpy_ok ?env k \<and> future_done ?env k
          \<and> events c' =
               [Rclpy_init]
               @ replicate waits (Client_log ''service not available, waiting again...'')
               @ [Call_AddTwoInts (req c')]
               @ replicate (Suc k) Spin_once
               @ [Future_result,
                  Client_log (case future_outcome ?env of
                     Inl e \<Rightarrow> ''Service call failed ('' @ exc_repr e @ '',)''
                   | Inr response \<Rightarrow>
                       ''Result of add_two_ints: for '' @ str_int (req_a (req c')) @ '' + ''
                         @ str_int (req_b (req c')) @ '' = '' @ str_int (resp_sum response))]
               @ [Destroy_node, Rclpy_shutdown]
        \<or> \<not> rclpy_ok ?env k
          \<and> events c' =
               [Rclpy_init]
               @ replicate waits (Client_log ''service not available, waiting again...'')
               @ [Call_AddTwoInts (req c')]
               @ replicate k Spin_once
               @ [Destroy_node, Rclpy_shutdown]"
    by (elim exE conjE)
  have fo: "future_outcome ?env = Inl e" by simp
  from r show ?thesis unfolding fo sum.case
  proof (elim disjE conjE)
    assume ev: "events c' =
               [Rclpy_init]
               @ replicate waits (Client_log ''service not available, waiting again...'')
               @ [Call_AddTwoInts (req c')]
               @ replicate (Suc k) Spin_once
               @ [Future_result,
                  Client_log (''Service call failed ('' @ exc_repr e @ '',)'')]
               @ [Destroy_node, Rclpy_shutdown]"
    show ?thesis
      by (rule exI [of _ "[Rclpy_init]
               @ replicate waits (Client_log ''service not available, waiting again...'')
               @ [Call_AddTwoInts (req c')]
               @ replicate (Suc k) Spin_once"]) (simp only: ev append_assoc append_Cons append_Nil)
  next
    assume ev: "events c' =
               [Rclpy_init]
               @ replicate waits (Client_log ''service not available, waiting again...'')
               @ [Call_AddTwoInts (req c')]
               @ replicate k Spin_once
               @ [Destroy_node, Rclpy_shutdown]"
    have "count_list (events c') Future_result = 0"
      unfolding ev by (simp add: count_list_append count_logs count_spins del: replicate.simps)
    with one show ?thesis by simp
  qed
qed

section \<open>The request of the client\<close>



section \<open>One call, polled while the process is up\<close>




section \<open>Exceptions of a future\<close>

text \<open>
  C4. When \<open>future.result()\<close> raises an exception \<open>e\<close>: the done-callback of \<open>spawn\<close> and
  that of \<open>publish_golfballs\<close> return normally having added one log line and nothing
  else; in the client, the result handling adds the failure line, the polling loop ends
  right after it, and every run of \<open>main\<close> that returns has sent one call only and, if it
  looked at the result, ends with the failure line followed by \<open>destroy_node\<close> and
  \<open>shutdown\<close>: nothing is raised further and nothing is sent again.
\<close>

theorem future_exceptions_are_logged:
  "spawn_result env name (Inl e) w =
      Inr (emit [Log WARN (''Could not spawn '' @ name @ ''. Exception: '' @ exc_str e)] w)
   \<and> publish_golfballs_results (Inl e) w =
      Inr (emit [Log FATAL (''Could not send golf ball poses. Exception: '' @ exc_str e)] w)
   \<and> process_result (cenv\<lparr>future_outcome := Inl e\<rparr>) c =
      client_emit [Future_result, Client_log (''Service call failed ('' @ exc_repr e @ '',)'')] c
   \<and> (rclpy_ok cenv i \<and> future_done cenv i \<longrightarrow>
        poll_loop (cenv\<lparr>future_outcome := Inl e\<rparr>) i c =
          Some (client_emit
                 [Spin_once, Future_result,
                  Client_log (''Service call failed ('' @ exc_repr e @ '',)'')] c))
   \<and> (\<forall>c'. main (cenv\<lparr>future_outcome := Inl e\<rparr>) = Some (Inr c') \<longrightarrow>
          calls (events c') = [req c']
        \<and> (count_list (events c') Future_result = 1 \<longrightarrow>
             (\<exists>before. events c' =
                before @ [Future_result,
                          Client_log (''Service call failed ('' @ exc_repr e @ '',)''),
                          Destroy_node, Rclpy_shutdown])))"
proof (intro conjI allI impI)
  show "spawn_result env name (Inl e) w =
      Inr (emit [Log WARN (''Could not spawn '' @ name @ ''. Exception: '' @ exc_str e)] w)"
    by (simp add: spawn_result_def)
next
  show "publish_golfballs_results (Inl e) w =
      Inr (emit [Log FATAL (''Could not send golf ball poses. Exception: '' @ exc_str e)] w)"
    by (simp add: publish_golfballs_results_def)
next
  show "process_result (cenv\<lparr>future_outcome := Inl e\<rparr>) c =
      client_emit [Future_result, Client_log (''Service call failed ('' @ exc_repr e @ '',)'')] c"
    by (rule process_result_raises)
next
  assume "rclpy_ok cenv i \<and> future_done cenv i"
  then show "poll_loop (cenv\<lparr>future_outcome := Inl e\<rparr>) i c =
          Some (client_emit
                 [Spin_once, Future_result,
                  Client_log (''Service call failed ('' @ exc_repr e @ '',)'')] c)"
    by (intro poll_loop_raises) simp_all
next
  fix c' assume "main (cenv\<lparr>future_outcome := Inl e\<rparr>) = Some (Inr c')"
  then show "calls (events c') = [req c']" by (rule main_calls(1))
next
  fix c' assume "main (cenv\<lparr>future_outcome := Inl e\<rparr>) = Some (Inr c')"
    and "count_list (events c') Future_result = 1"
  then show "\<exists>before. events c' =
                before @ [Future_result,
                          Client_log (''Service call failed ('' @ exc_repr e @ '',)''),
                          Destroy_node, Rclpy_shutdown]"
    by (rule main_failure_tail)
qed

theorem future_exceptions_are_logged_witness:
  "rclpy_ok demo_client_env 2
   \<and> future_done demo_client_env 2
   \<and> poll_loop
        (demo_client_env
           \<lparr>future_outcome := Inl \<lparr>exc_str = ''timed out'', exc_repr = ''TimeoutError()''\<rparr>\<rparr>)
        2 (fresh_client demo_client_env) =
       Some \<lparr>req = \<lparr>req_a = 0, req_b = 0\<rparr>, future = None,
             events = [Spin_once, Future_result,
                       Client_log ''Service call failed (TimeoutError(),)'']\<rparr>
   \<and> (\<exists>c' before.
         main (demo_client_env
           \<lparr>future_outcome := Inl \<lparr>exc_str = ''timed out'', exc_repr = ''TimeoutError()''\<rparr>\<rparr>)
           = Some (Inr c')
       \<and> calls (events c') = [\<lparr>req_a = 2, req_b = 3\<rparr>]
       \<and> count_list (events c') Future_result = 1
       \<and> events c' = before @ [Future_result,
                                Client_log ''Service call failed (TimeoutError(),)'',
                                Destroy_node, Rclpy_shutdown])"
proof -
  let ?e = "\<lparr>exc_str = ''timed out'', exc_repr = ''TimeoutError()''\<rparr>"
  let ?c = "\<lparr>req = \<lparr>req_a = 2, req_b = 3\<rparr>,
               future = Some \<lparr>req_a = 2, req_b = 3\<rparr>,
               events = [Rclpy_init,
                         Client_log ''service not available, waiting again...'',
                         Call_AddTwoInts \<lparr>req_a = 2, req_b = 3\<rparr>,
                         Spin_once, Spin_once, Spin_once,
                         Future_result,
                         Client_log ''Service call failed (TimeoutError(),)'',
                         Destroy_node, Rclpy_shutdown]\<rparr>"
  have h: "rclpy_ok demo_client_env 2 \<and> future_done demo_client_env 2"
    by (simp add: demo_client_env_def)
  note inst = future_exceptions_are_logged
    [of _ _ ?e _ demo_client_env "fresh_client demo_client_env" 2]
  have loop: "poll_loop (demo_client_env\<lparr>future_outcome := Inl ?e\<rparr>) 2 (fresh_client demo_client_env) =
       Some \<lparr>req = \<lparr>req_a = 0, req_b = 0\<rparr>, future = None,
             events = [Spin_once, Future_result,
                       Client_log ''Service call failed (TimeoutError(),)'']\<rparr>"
    using inst [THEN conjunct2, THEN conjunct2, THEN conjunct2, THEN conjunct1, rule_format, OF h]
    by (simp add: fresh_client_def client_emit_def demo_client_env_def)
  note last = inst [THEN conjunct2, THEN conjunct2, THEN conjunct2, THEN conjunct2, rule_format,
      OF failing_run]
  have one: "count_list (events ?c) Future_result = 1" by simp
  from last [THEN conjunct1] have calls: "calls (events ?c) = [\<lparr>req_a = 2, req_b = 3\<rparr>]" by simp
  from last [THEN conjunct2, rule_format, OF one] obtain before where
    tail: "events ?c = before @ [Future_result,
                                Client_log ''Service call failed (TimeoutError(),)'',
                                Destroy_node, Rclpy_shutdown]"
    by auto
  have "\<exists>c' before.
         main (demo_client_env\<lparr>future_outcome := Inl ?e\<rparr>) = Some (Inr c')
       \<and> calls (events c') = [\<lparr>req_a = 2, req_b = 3\<rparr>]
       \<and> count_list (events c') Future_result = 1
       \<and> events c' = before @ [Future_result,
                                Client_log ''Service call failed (TimeoutError(),)'',
                                Destroy_node, Rclpy_shutdown]"
    by (rule exI [of _ ?c], rule exI [of _ before], intro conjI, rule failing_run, rule calls,
        rule one, rule tail)
  with h loop show ?thesis by (intro conjI) simp_all
qed

end
